theory Spec2Isabelle
  imports Main "HOL-Library.Word"
begin

section \<open>The StreamPay ledger: data model\<close>

text \<open>
  The contract \<open>StreamPay\<close> (Solidity 0.8.20) keeps two kinds of entities, streams and
  subscriptions, in mappings from a \<open>uint256\<close> identifier, and a table of withdrawable
  balances per account. A \<open>uint256\<close> is a 256-bit word, an \<open>address\<close> a 160-bit word.
  A Solidity mapping has a value at every key (all fields zero where nothing was
  stored), so the mappings are total functions.

  The two structs both have fields \<open>id\<close>, \<open>ratePerSecond\<close> and \<open>active\<close>; the fields of
  \<open>Subscription\<close> carry the prefix \<open>sub_\<close> to keep them apart, and \<open>Stream.id\<close> is
  \<open>stream_id\<close> (\<open>id\<close> is the identity function of HOL).
\<close>

type_synonym uint256 = "256 word"
type_synonym address = "160 word"

record Stream =
  stream_id :: uint256
  sender :: address
  recipient :: address
  deposit :: uint256
  ratePerSecond :: uint256
  startTime :: uint256
  stopTime :: uint256
  remainingBalance :: uint256
  active :: bool

record Subscription =
  sub_id :: uint256
  subscriber :: address
  provider :: address
  sub_ratePerSecond :: uint256
  lastPaymentTime :: uint256
  sub_active :: bool

text \<open>
  A call either returns or reverts. \<open>Revert\<close> carries the message of the failed
  \<open>require\<close>; \<open>Panic\<close> is the arithmetic panic of checked \<open>uint256\<close> arithmetic
  (overflow of \<open>+\<close> and \<open>*\<close>, underflow of \<open>-\<close>); \<open>TransferFailed\<close> is a failed
  \<open>payable(a).transfer(v)\<close>; \<open>NotOwner\<close> is the rejection of the \<open>onlyOwner\<close> modifier.
  A reverted call leaves the storage as it was, so an error carries no state.
\<close>

datatype error = Revert string | Panic | TransferFailed | NotOwner

text \<open>
  What a call does, in program order: each storage write, each outgoing transfer of value and
  each emitted event is appended to the \<open>trace\<close> of the ledger by the statement that
  performs it. The trace is a record of the run, not part of the contract's storage: no
  function reads it.
\<close>

datatype slot =
    StreamsAt uint256
  | StreamRemainingBalance uint256
  | StreamActive uint256
  | SubscriptionsAt uint256
  | SubLastPaymentTime uint256
  | SubActive uint256
  | UserStreams address
  | RecipientStreams address
  | UserSubscriptions address
  | Balances address
  | NextStreamId
  | NextSubscriptionId
  | PlatformFee

datatype emitted =
    StreamCreated uint256 address address uint256 uint256 uint256 uint256
  | StreamWithdrawn uint256 address uint256
  | StreamCancelled uint256 address address uint256 uint256
  | SubscriptionCreated uint256 address address uint256
  | SubscriptionPayment uint256 address address uint256
  | SubscriptionCancelled uint256 address

datatype effect = Write slot | Transfer address uint256 | Emit emitted

record ledger =
  streams :: "uint256 \<Rightarrow> Stream"
  subscriptions :: "uint256 \<Rightarrow> Subscription"
  userStreams :: "address \<Rightarrow> uint256 list"
  recipientStreams :: "address \<Rightarrow> uint256 list"
  userSubscriptions :: "address \<Rightarrow> uint256 list"
  balances :: "address \<Rightarrow> uint256"
  nextStreamId :: uint256
  nextSubscriptionId :: uint256
  platformFee :: uint256
  owner :: address
  this_balance :: uint256
  trace :: "effect list"

text \<open>
  The environment of one call: \<open>block.timestamp\<close>, \<open>msg.sender\<close>, and which accounts
  accept a plain transfer of value from the contract (a transfer to a contract whose
  receive function reverts fails). \<open>msg.value\<close> is an argument of the payable functions.
\<close>

record env =
  block_timestamp :: uint256
  msg_sender :: address
  accepts :: "address \<Rightarrow> bool"

definition zero_stream :: Stream where
  "zero_stream = \<lparr>stream_id = 0, sender = 0, recipient = 0, deposit = 0, ratePerSecond = 0,
     startTime = 0, stopTime = 0, remainingBalance = 0, active = False\<rparr>"

definition zero_subscription :: Subscription where
  "zero_subscription = \<lparr>sub_id = 0, subscriber = 0, provider = 0, sub_ratePerSecond = 0,
     lastPaymentTime = 0, sub_active = False\<rparr>"

text \<open>The storage after the constructor, \<open>Ownable(msg.sender)\<close> with the declared initial values.\<close>

definition deployed :: "address \<Rightarrow> ledger" where
  "deployed deployer = \<lparr>streams = (\<lambda>_. zero_stream), subscriptions = (\<lambda>_. zero_subscription),
     userStreams = (\<lambda>_. []), recipientStreams = (\<lambda>_. []), userSubscriptions = (\<lambda>_. []),
     balances = (\<lambda>_. 0), nextStreamId = 1, nextSubscriptionId = 1, platformFee = 10,
     owner = deployer, this_balance = 0, trace = []\<rparr>"

section \<open>Checked arithmetic and sequencing\<close>

definition add256 :: "uint256 \<Rightarrow> uint256 \<Rightarrow> error + uint256" where
  "add256 a b = (if unat a + unat b < 2 ^ 256 then Inr (a + b) else Inl Panic)"

definition sub256 :: "uint256 \<Rightarrow> uint256 \<Rightarrow> error + uint256" where
  "sub256 a b = (if b \<le> a then Inr (a - b) else Inl Panic)"

definition mul256 :: "uint256 \<Rightarrow> uint256 \<Rightarrow> error + uint256" where
  "mul256 a b = (if unat a * unat b < 2 ^ 256 then Inr (a * b) else Inl Panic)"

definition bindE :: "error + 'a \<Rightarrow> ('a \<Rightarrow> error + 'b) \<Rightarrow> error + 'b" where
  "bindE m f = (case m of Inl e \<Rightarrow> Inl e | Inr x \<Rightarrow> f x)"

section \<open>Storage writes, transfers and events\<close>

definition sstore :: "slot \<Rightarrow> ledger \<Rightarrow> ledger" where
  "sstore sl s = s\<lparr>trace := trace s @ [Write sl]\<rparr>"

definition emit :: "emitted \<Rightarrow> ledger \<Rightarrow> ledger" where
  "emit ev s = s\<lparr>trace := trace s @ [Emit ev]\<rparr>"

definition set_stream :: "uint256 \<Rightarrow> Stream \<Rightarrow> ledger \<Rightarrow> ledger" where
  "set_stream i st s = sstore (StreamsAt i) (s\<lparr>streams := (streams s)(i := st)\<rparr>)"

definition set_remainingBalance :: "uint256 \<Rightarrow> uint256 \<Rightarrow> ledger \<Rightarrow> ledger" where
  "set_remainingBalance i v s =
     sstore (StreamRemainingBalance i)
       (s\<lparr>streams := (streams s)(i := (streams s i)\<lparr>remainingBalance := v\<rparr>)\<rparr>)"

definition set_active :: "uint256 \<Rightarrow> bool \<Rightarrow> ledger \<Rightarrow> ledger" where
  "set_active i v s =
     sstore (StreamActive i) (s\<lparr>streams := (streams s)(i := (streams s i)\<lparr>active := v\<rparr>)\<rparr>)"

definition set_subscription :: "uint256 \<Rightarrow> Subscription \<Rightarrow> ledger \<Rightarrow> ledger" where
  "set_subscription i su s = sstore (SubscriptionsAt i) (s\<lparr>subscriptions := (subscriptions s)(i := su)\<rparr>)"

definition set_lastPaymentTime :: "uint256 \<Rightarrow> uint256 \<Rightarrow> ledger \<Rightarrow> ledger" where
  "set_lastPaymentTime i v s =
     sstore (SubLastPaymentTime i)
       (s\<lparr>subscriptions := (subscriptions s)(i := (subscriptions s i)\<lparr>lastPaymentTime := v\<rparr>)\<rparr>)"

definition set_sub_active :: "uint256 \<Rightarrow> bool \<Rightarrow> ledger \<Rightarrow> ledger" where
  "set_sub_active i v s =
     sstore (SubActive i)
       (s\<lparr>subscriptions := (subscriptions s)(i := (subscriptions s i)\<lparr>sub_active := v\<rparr>)\<rparr>)"

definition set_balance :: "address \<Rightarrow> uint256 \<Rightarrow> ledger \<Rightarrow> ledger" where
  "set_balance a v s = sstore (Balances a) (s\<lparr>balances := (balances s)(a := v)\<rparr>)"

definition push_userStreams :: "address \<Rightarrow> uint256 \<Rightarrow> ledger \<Rightarrow> ledger" where
  "push_userStreams a i s =
     sstore (UserStreams a) (s\<lparr>userStreams := (userStreams s)(a := userStreams s a @ [i])\<rparr>)"

definition push_recipientStreams :: "address \<Rightarrow> uint256 \<Rightarrow> ledger \<Rightarrow> ledger" where
  "push_recipientStreams a i s =
     sstore (RecipientStreams a)
       (s\<lparr>recipientStreams := (recipientStreams s)(a := recipientStreams s a @ [i])\<rparr>)"

definition push_userSubscriptions :: "address \<Rightarrow> uint256 \<Rightarrow> ledger \<Rightarrow> ledger" where
  "push_userSubscriptions a i s =
     sstore (UserSubscriptions a)
       (s\<lparr>userSubscriptions := (userSubscriptions s)(a := userSubscriptions s a @ [i])\<rparr>)"

text \<open>
  \<open>payable(a).transfer(v)\<close>: reverts when the contract holds less than \<open>v\<close> or the
  receiver does not accept it; otherwise the value leaves the contract. The receiver gets
  the gas stipend of a plain transfer only, and every function that transfers is
  \<open>nonReentrant\<close>, so nothing of the contract runs during a transfer: a call is one
  function from the ledger before it to the ledger after it.
\<close>

definition transfer :: "env \<Rightarrow> address \<Rightarrow> uint256 \<Rightarrow> ledger \<Rightarrow> error + ledger" where
  "transfer e a v s =
     (if v \<le> this_balance s \<and> accepts e a
      then Inr (s\<lparr>this_balance := this_balance s - v, trace := trace s @ [Transfer a v]\<rparr>)
      else Inl TransferFailed)"

text \<open>
  A payable function holds \<open>msg.value\<close> from its first statement on. (On chain the sum
  cannot pass \<open>2 ^ 256\<close>: there is not that much value.)
\<close>

definition receive_value :: "uint256 \<Rightarrow> ledger \<Rightarrow> ledger" where
  "receive_value v s = s\<lparr>this_balance := this_balance s + v\<rparr>"

section \<open>Streams\<close>

definition createStream ::
  "env \<Rightarrow> uint256 \<Rightarrow> address \<Rightarrow> uint256 \<Rightarrow> uint256 \<Rightarrow> ledger \<Rightarrow> error + (uint256 \<times> ledger)" where
  "createStream e msg_value recipient' duration ratePerSecond' s0 =
    (let s = receive_value msg_value s0 in
     if recipient' = 0 then Inl (Revert ''Invalid recipient'')
     else if recipient' = msg_sender e then Inl (Revert ''Cannot stream to yourself'')
     else if \<not> 0 < duration then Inl (Revert ''Duration must be > 0'')
     else if \<not> 0 < ratePerSecond' then Inl (Revert ''Rate must be > 0'')
     else bindE (mul256 ratePerSecond' duration) (\<lambda>deposit'.
       if \<not> deposit' \<le> msg_value then Inl (Revert ''Insufficient deposit'')
       else bindE (add256 (nextStreamId s) 1) (\<lambda>next.
         let streamId = nextStreamId s;
             s1 = sstore NextStreamId (s\<lparr>nextStreamId := next\<rparr>);
             startTime' = block_timestamp e
         in bindE (add256 startTime' duration) (\<lambda>stopTime'.
           let s2 = set_stream streamId
                      \<lparr>stream_id = streamId, sender = msg_sender e, recipient = recipient',
                       deposit = deposit', ratePerSecond = ratePerSecond',
                       startTime = startTime', stopTime = stopTime',
                       remainingBalance = deposit', active = True\<rparr> s1;
               s3 = push_userStreams (msg_sender e) streamId s2;
               s4 = push_recipientStreams recipient' streamId s3
           in bindE (if deposit' < msg_value
                     then bindE (sub256 msg_value deposit')
                            (\<lambda>excess. transfer e (msg_sender e) excess s4)
                     else Inr s4) (\<lambda>s5.
                Inr (streamId,
                     emit (StreamCreated streamId (msg_sender e) recipient' deposit'
                             ratePerSecond' startTime' stopTime') s5))))))"

definition balanceOf :: "env \<Rightarrow> uint256 \<Rightarrow> ledger \<Rightarrow> error + (uint256 \<times> uint256)" where
  "balanceOf e streamId s =
    (let stream = streams s streamId in
     if \<not> stream_id stream \<noteq> 0 then Inl (Revert ''Stream doesn't exist'')
     else if \<not> active stream then Inr (0, remainingBalance stream)
     else bindE (if stopTime stream \<le> block_timestamp e
                 then sub256 (stopTime stream) (startTime stream)
                 else sub256 (block_timestamp e) (startTime stream)) (\<lambda>elapsedTime.
       bindE (mul256 elapsedTime (ratePerSecond stream)) (\<lambda>earned.
         if deposit stream \<le> earned then Inr (remainingBalance stream, 0)
         else bindE (sub256 (deposit stream) earned) (\<lambda>senderBalance.
           Inr (earned, senderBalance)))))"

definition withdrawFromStream :: "env \<Rightarrow> uint256 \<Rightarrow> ledger \<Rightarrow> error + ledger" where
  "withdrawFromStream e streamId s =
    (let stream = streams s streamId in
     if \<not> recipient stream = msg_sender e then Inl (Revert ''Not stream recipient'')
     else if \<not> active stream then Inl (Revert ''Stream not active'')
     else bindE (balanceOf e streamId s) (\<lambda>(recipientBalance, _).
       if \<not> 0 < recipientBalance then Inl (Revert ''Nothing to withdraw'')
       else bindE (mul256 recipientBalance (platformFee s)) (\<lambda>scaled.
         let fee = scaled div 10000
         in bindE (sub256 recipientBalance fee) (\<lambda>netAmount.
           bindE (sub256 (remainingBalance stream) recipientBalance) (\<lambda>remaining.
             let s1 = set_remainingBalance streamId remaining s;
                 s2 = (if stopTime stream \<le> block_timestamp e
                          \<or> remainingBalance (streams s1 streamId) = 0
                       then set_active streamId False s1 else s1)
             in bindE (add256 (balances s2 (owner s2)) fee) (\<lambda>credited.
               let s3 = set_balance (owner s2) credited s2
               in bindE (transfer e (msg_sender e) netAmount s3) (\<lambda>s4.
                 Inr (emit (StreamWithdrawn streamId (msg_sender e) netAmount) s4))))))))"

definition cancelStream :: "env \<Rightarrow> uint256 \<Rightarrow> ledger \<Rightarrow> error + ledger" where
  "cancelStream e streamId s =
    (let stream = streams s streamId in
     if \<not> (sender stream = msg_sender e \<or> recipient stream = msg_sender e)
     then Inl (Revert ''Not authorized'')
     else if \<not> active stream then Inl (Revert ''Stream not active'')
     else bindE (balanceOf e streamId s) (\<lambda>(recipientBalance, senderBalance).
       let s1 = set_active streamId False s;
           s2 = set_remainingBalance streamId 0 s1
       in bindE (if 0 < recipientBalance
                 then bindE (mul256 recipientBalance (platformFee s2)) (\<lambda>scaled.
                        let fee = scaled div 10000
                        in bindE (sub256 recipientBalance fee) (\<lambda>netAmount.
                          bindE (add256 (balances s2 (owner s2)) fee) (\<lambda>credited.
                            transfer e (recipient (streams s2 streamId)) netAmount
                              (set_balance (owner s2) credited s2))))
                 else Inr s2) (\<lambda>s3.
            bindE (if 0 < senderBalance
                   then transfer e (sender (streams s3 streamId)) senderBalance s3
                   else Inr s3) (\<lambda>s4.
              Inr (emit (StreamCancelled streamId (sender (streams s4 streamId))
                           (recipient (streams s4 streamId)) senderBalance recipientBalance)
                     s4)))))"

section \<open>Subscriptions\<close>

definition createSubscription ::
  "env \<Rightarrow> uint256 \<Rightarrow> address \<Rightarrow> uint256 \<Rightarrow> ledger \<Rightarrow> error + (uint256 \<times> ledger)" where
  "createSubscription e msg_value provider' ratePerSecond' s0 =
    (let s = receive_value msg_value s0 in
     if provider' = 0 then Inl (Revert ''Invalid provider'')
     else if provider' = msg_sender e then Inl (Revert ''Cannot subscribe to yourself'')
     else if \<not> 0 < ratePerSecond' then Inl (Revert ''Rate must be > 0'')
     else if \<not> 0 < msg_value then Inl (Revert ''Must deposit funds'')
     else bindE (add256 (nextSubscriptionId s) 1) (\<lambda>next.
       let subscriptionId = nextSubscriptionId s;
           s1 = sstore NextSubscriptionId (s\<lparr>nextSubscriptionId := next\<rparr>);
           s2 = set_subscription subscriptionId
                  \<lparr>sub_id = subscriptionId, subscriber = msg_sender e, provider = provider',
                   sub_ratePerSecond = ratePerSecond', lastPaymentTime = block_timestamp e,
                   sub_active = True\<rparr> s1;
           s3 = push_userSubscriptions (msg_sender e) subscriptionId s2
       in bindE (add256 (balances s3 (msg_sender e)) msg_value) (\<lambda>funded.
            let s4 = set_balance (msg_sender e) funded s3
            in Inr (subscriptionId,
                    emit (SubscriptionCreated subscriptionId (msg_sender e) provider'
                            ratePerSecond') s4))))"

definition processSubscriptionPayment :: "env \<Rightarrow> uint256 \<Rightarrow> ledger \<Rightarrow> error + ledger" where
  "processSubscriptionPayment e subscriptionId s =
    (let sub = subscriptions s subscriptionId in
     if \<not> sub_active sub then Inl (Revert ''Subscription not active'')
     else bindE (sub256 (block_timestamp e) (lastPaymentTime sub)) (\<lambda>elapsedTime.
       bindE (mul256 elapsedTime (sub_ratePerSecond sub)) (\<lambda>payment.
         if \<not> payment \<le> balances s (subscriber sub) then Inl (Revert ''Insufficient balance'')
         else bindE (sub256 (balances s (subscriber sub)) payment) (\<lambda>debited.
           let s1 = set_balance (subscriber sub) debited s
           in bindE (mul256 payment (platformFee s1)) (\<lambda>scaled.
             let fee = scaled div 10000
             in bindE (sub256 payment fee) (\<lambda>netPayment.
               bindE (add256 (balances s1 (owner s1)) fee) (\<lambda>credited.
                 let s2 = set_balance (owner s1) credited s1
                 in bindE (transfer e (provider sub) netPayment s2) (\<lambda>s3.
                   let s4 = set_lastPaymentTime subscriptionId (block_timestamp e) s3
                   in Inr (emit (SubscriptionPayment subscriptionId (subscriber sub)
                                   (provider sub) netPayment) s4)))))))))"

definition cancelSubscription :: "env \<Rightarrow> uint256 \<Rightarrow> ledger \<Rightarrow> error + ledger" where
  "cancelSubscription e subscriptionId s =
    (let sub = subscriptions s subscriptionId in
     if \<not> (subscriber sub = msg_sender e \<or> provider sub = msg_sender e)
     then Inl (Revert ''Not authorized'')
     else if \<not> sub_active sub then Inl (Revert ''Already cancelled'')
     else bindE (if 0 < balances s (subscriber sub)
                 then bindE (sub256 (block_timestamp e) (lastPaymentTime sub)) (\<lambda>elapsedTime.
                        bindE (mul256 elapsedTime (sub_ratePerSecond sub)) (\<lambda>payment.
                          if 0 < payment \<and> payment \<le> balances s (subscriber sub)
                          then bindE (sub256 (balances s (subscriber sub)) payment) (\<lambda>debited.
                                 let s1 = set_balance (subscriber sub) debited s
                                 in bindE (mul256 payment (platformFee s1)) (\<lambda>scaled.
                                   let fee = scaled div 10000
                                   in bindE (sub256 payment fee) (\<lambda>netPayment.
                                     bindE (add256 (balances s1 (owner s1)) fee) (\<lambda>credited.
                                       transfer e (provider sub) netPayment
                                         (set_balance (owner s1) credited s1)))))
                          else Inr s))
                 else Inr s) (\<lambda>s2.
       let s3 = set_sub_active subscriptionId False s2
       in Inr (emit (SubscriptionCancelled subscriptionId
                       (subscriber (subscriptions s3 subscriptionId))) s3)))"

definition topUpSubscription :: "env \<Rightarrow> uint256 \<Rightarrow> uint256 \<Rightarrow> ledger \<Rightarrow> error + ledger" where
  "topUpSubscription e msg_value subscriptionId s0 =
    (let s = receive_value msg_value s0;
         sub = subscriptions s subscriptionId in
     if \<not> subscriber sub = msg_sender e then Inl (Revert ''Not subscriber'')
     else if \<not> sub_active sub then Inl (Revert ''Subscription not active'')
     else if \<not> 0 < msg_value then Inl (Revert ''Must send ETH'')
     else bindE (add256 (balances s (msg_sender e)) msg_value) (\<lambda>funded.
       Inr (set_balance (msg_sender e) funded s)))"

section \<open>Balance withdrawal, administration and read accessors\<close>

definition withdraw :: "env \<Rightarrow> ledger \<Rightarrow> error + ledger" where
  "withdraw e s =
    (let balance = balances s (msg_sender e) in
     if \<not> 0 < balance then Inl (Revert ''No balance'')
     else transfer e (msg_sender e) balance (set_balance (msg_sender e) 0 s))"

definition setPlatformFee :: "env \<Rightarrow> uint256 \<Rightarrow> ledger \<Rightarrow> error + ledger" where
  "setPlatformFee e newFee s =
    (if msg_sender e \<noteq> owner s then Inl NotOwner
     else if \<not> newFee \<le> 1000 then Inl (Revert ''Fee too high'')
     else Inr (sstore PlatformFee (s\<lparr>platformFee := newFee\<rparr>)))"

definition getStream ::
  "uint256 \<Rightarrow> ledger \<Rightarrow>
     address \<times> address \<times> uint256 \<times> uint256 \<times> uint256 \<times> uint256 \<times> uint256 \<times> bool" where
  "getStream streamId s =
    (let stream = streams s streamId in
     (sender stream, recipient stream, deposit stream, ratePerSecond stream,
      startTime stream, stopTime stream, remainingBalance stream, active stream))"

definition getSubscription ::
  "env \<Rightarrow> uint256 \<Rightarrow> ledger \<Rightarrow>
     error + (address \<times> address \<times> uint256 \<times> uint256 \<times> bool \<times> uint256)" where
  "getSubscription e subscriptionId s =
    (let sub = subscriptions s subscriptionId in
     bindE (sub256 (block_timestamp e) (lastPaymentTime sub)) (\<lambda>elapsedTime.
       bindE (mul256 elapsedTime (sub_ratePerSecond sub)) (\<lambda>pending.
         Inr (subscriber sub, provider sub, sub_ratePerSecond sub, lastPaymentTime sub,
              sub_active sub, pending))))"

definition getUserStreams :: "address \<Rightarrow> ledger \<Rightarrow> uint256 list" where
  "getUserStreams user s = userStreams s user"

definition getRecipientStreams :: "address \<Rightarrow> ledger \<Rightarrow> uint256 list" where
  "getRecipientStreams a s = recipientStreams s a"

definition getUserSubscriptions :: "address \<Rightarrow> ledger \<Rightarrow> uint256 list" where
  "getUserSubscriptions user s = userSubscriptions s user"

section \<open>Calls, runs and reachable states\<close>

text \<open>
  The external functions that change the storage, as one datatype of calls. The first
  argument of a payable call is \<open>msg.value\<close>. \<open>SetOwner\<close> stands for the two inherited
  functions of OpenZeppelin's \<open>Ownable\<close> (\<open>transferOwnership\<close>, \<open>renounceOwnership\<close>),
  which are not part of the sources and change nothing but the owner.
\<close>

datatype call =
    CreateStream uint256 address uint256 uint256
  | WithdrawFromStream uint256
  | CancelStream uint256
  | CreateSubscription uint256 address uint256
  | ProcessSubscriptionPayment uint256
  | CancelSubscription uint256
  | TopUpSubscription uint256 uint256
  | Withdraw
  | SetPlatformFee uint256
  | SetOwner address

fun exec :: "env \<Rightarrow> call \<Rightarrow> ledger \<Rightarrow> error + ledger" where
  "exec e (CreateStream v r d rate) s = bindE (createStream e v r d rate s) (\<lambda>(i, s'). Inr s')"
| "exec e (WithdrawFromStream i) s = withdrawFromStream e i s"
| "exec e (CancelStream i) s = cancelStream e i s"
| "exec e (CreateSubscription v p rate) s =
     bindE (createSubscription e v p rate s) (\<lambda>(i, s'). Inr s')"
| "exec e (ProcessSubscriptionPayment i) s = processSubscriptionPayment e i s"
| "exec e (CancelSubscription i) s = cancelSubscription e i s"
| "exec e (TopUpSubscription v i) s = topUpSubscription e v i s"
| "exec e Withdraw s = withdraw e s"
| "exec e (SetPlatformFee f) s = setPlatformFee e f s"
| "exec e (SetOwner a) s = (if msg_sender e \<noteq> owner s then Inl NotOwner else Inr (s\<lparr>owner := a\<rparr>))"

text \<open>A sequence of calls; a call that reverts leaves the storage as it was.\<close>

fun run :: "(env \<times> call) list \<Rightarrow> ledger \<Rightarrow> ledger" where
  "run [] s = s"
| "run ((e, c) # cs) s = run cs (case exec e c s of Inl _ \<Rightarrow> s | Inr s' \<Rightarrow> s')"

inductive reachable :: "ledger \<Rightarrow> bool" where
  deployed: "reachable (deployed d)"
| call: "reachable s \<Longrightarrow> exec e c s = Inr s' \<Longrightarrow> reachable s'"

section \<open>Reading the trace\<close>

text \<open>The effects that a call appended to the trace, and the transfers among them.\<close>

definition effects_of :: "ledger \<Rightarrow> ledger \<Rightarrow> effect list" where
  "effects_of s s' = drop (length (trace s)) (trace s')"

fun payouts :: "effect list \<Rightarrow> (address \<times> uint256) list" where
  "payouts [] = []"
| "payouts (Transfer a v # es) = (a, v) # payouts es"
| "payouts (_ # es) = payouts es"

text \<open>
  The entity and balance state of the ledger: the stream and subscription records with
  their fields (\<open>remainingBalance\<close>, the two \<open>active\<close> flags, \<open>lastPaymentTime\<close>) and the
  entries of the balance table. The id counters, the index lists and the fee rate are not
  part of it.
\<close>

fun entity_or_balance :: "slot \<Rightarrow> bool" where
  "entity_or_balance (StreamsAt _) = True"
| "entity_or_balance (StreamRemainingBalance _) = True"
| "entity_or_balance (StreamActive _) = True"
| "entity_or_balance (SubscriptionsAt _) = True"
| "entity_or_balance (SubLastPaymentTime _) = True"
| "entity_or_balance (SubActive _) = True"
| "entity_or_balance (Balances _) = True"
| "entity_or_balance _ = False"

fun no_state_write :: "effect list \<Rightarrow> bool" where
  "no_state_write [] = True"
| "no_state_write (Write sl # es) = (\<not> entity_or_balance sl \<and> no_state_write es)"
| "no_state_write (_ # es) = no_state_write es"

text \<open>
  Every write to the entity and balance state in the list comes before every transfer of
  the list: no such write follows a transfer.
\<close>

fun state_writes_before_transfers :: "effect list \<Rightarrow> bool" where
  "state_writes_before_transfers [] = True"
| "state_writes_before_transfers (Transfer a v # es) = no_state_write es"
| "state_writes_before_transfers (_ # es) = state_writes_before_transfers es"

section \<open>Invariants of the reachable states\<close>

text \<open>
  A stream as \<open>createStream\<close> stores it and the other functions leave it: the deposit is
  rate times duration, and the remaining balance never exceeds the deposit.
\<close>

definition created :: "Stream \<Rightarrow> bool" where
  "created st \<longleftrightarrow>
     startTime st \<le> stopTime st \<and>
     unat (deposit st) = unat (ratePerSecond st) * (unat (stopTime st) - unat (startTime st)) \<and>
     remainingBalance st \<le> deposit st"

definition allocated :: "ledger \<Rightarrow> uint256 \<Rightarrow> bool" where
  "allocated s i \<longleftrightarrow> 0 < i \<and> i < nextStreamId s"

definition ledger_inv :: "ledger \<Rightarrow> bool" where
  "ledger_inv s \<longleftrightarrow>
     0 < nextStreamId s \<and>
     (\<forall>i. \<not> allocated s i \<longrightarrow> streams s i = zero_stream) \<and>
     (\<forall>i. allocated s i \<longrightarrow> stream_id (streams s i) = i \<and> created (streams s i))"

text \<open>
  What the recipient has earned at time \<open>t\<close>, as a natural number: the rate times the seconds
  from the start, counted no further than the stop time.
\<close>

definition earned_by :: "Stream \<Rightarrow> uint256 \<Rightarrow> nat" where
  "earned_by st t = (min (unat t) (unat (stopTime st)) - unat (startTime st)) * unat (ratePerSecond st)"

section \<open>The scenarios of the specification\<close>

text \<open>
  A fresh contract deployed by account 1 (the platform account). At time 1000 account 2
  opens a stream to account 3: 3600 units at 1 unit per second over 3600 seconds. At time
  2800, half way, the recipient withdraws.
\<close>

definition at_time :: "uint256 \<Rightarrow> address \<Rightarrow> env" where
  "at_time t a = \<lparr>block_timestamp = t, msg_sender = a, accepts = (\<lambda>_. True)\<rparr>"

definition stream_opened :: ledger where
  "stream_opened = run [(at_time 1000 2, CreateStream 3600 3 3600 1)] (deployed 1)"

definition stream_withdrawn_halfway :: ledger where
  "stream_withdrawn_halfway = run [(at_time 2800 3, WithdrawFromStream 1)] stream_opened"

text \<open>Instead, at time 1900 (900 seconds in) the sender cancels the stream.\<close>

definition stream_cancelled_early :: ledger where
  "stream_cancelled_early = run [(at_time 1900 2, CancelStream 1)] stream_opened"

text \<open>
  At time 1000 account 2 subscribes to provider 3 at 5 units per second and funds the
  subscription with 100 units.
\<close>

definition subscription_opened :: ledger where
  "subscription_opened = run [(at_time 1000 2, CreateSubscription 100 3 5)] (deployed 1)"

text \<open>Ten seconds later account 4, a third party, triggers the settlement.\<close>

definition subscription_settled :: ledger where
  "subscription_settled = run [(at_time 1010 4, ProcessSubscriptionPayment 1)] subscription_opened"

text \<open>
  Other continuations of the subscription scenario: the provider cancels the
  subscription after ten seconds, when the float covers the payment of 50; the subscriber
  tops up by 100 at time 1040, after which a settlement of the forty seconds since the
  start is made.
\<close>

definition subscription_cancelled :: ledger where
  "subscription_cancelled = run [(at_time 1010 3, CancelSubscription 1)] subscription_opened"

definition subscription_topped_up :: ledger where
  "subscription_topped_up = run [(at_time 1040 2, TopUpSubscription 100 1)] subscription_opened"

definition subscription_settled_late :: ledger where
  "subscription_settled_late =
     run [(at_time 1040 4, ProcessSubscriptionPayment 1)] subscription_topped_up"

section \<open>What a successful call has done\<close>

text \<open>
  For each function: the checks that a returning call has passed and the storage it leaves,
  in closed form.
\<close>

lemma bindE_Inr_iff: "bindE m f = Inr y \<longleftrightarrow> (\<exists>x. m = Inr x \<and> f x = Inr y)"
  by (cases m) (simp_all add: bindE_def)

lemma bindE_Inr [simp]: "bindE (Inr x) f = f x"
  by (simp add: bindE_def)

lemma bindE_Inl [simp]: "bindE (Inl x) f = Inl x"
  by (simp add: bindE_def)

lemma if_Inl_eq_Inr: "((if c then Inl err else m) = Inr y) \<longleftrightarrow> (\<not> c \<and> m = Inr y)"
  by simp

lemma add256_Inr_iff: "add256 a b = Inr c \<longleftrightarrow> unat a + unat b < 2 ^ 256 \<and> c = a + b"
  by (auto simp: add256_def)

lemma sub256_Inr_iff: "sub256 a b = Inr c \<longleftrightarrow> b \<le> a \<and> c = a - b"
  by (auto simp: sub256_def)

lemma mul256_Inr_iff: "mul256 a b = Inr c \<longleftrightarrow> unat a * unat b < 2 ^ 256 \<and> c = a * b"
  by (auto simp: mul256_def)

lemma transfer_Inr_iff:
  "transfer e a v s = Inr s' \<longleftrightarrow>
     v \<le> this_balance s \<and> accepts e a \<and>
     s' = s\<lparr>this_balance := this_balance s - v, trace := trace s @ [Transfer a v]\<rparr>"
  by (auto simp: transfer_def)

lemmas checked_Inr_iff = if_Inl_eq_Inr add256_Inr_iff sub256_Inr_iff mul256_Inr_iff transfer_Inr_iff

lemma payouts_append [simp]: "payouts (xs @ ys) = payouts xs @ payouts ys"
  by (induction xs rule: payouts.induct) simp_all

lemmas setters = sstore_def emit_def set_stream_def set_remainingBalance_def set_active_def
  set_subscription_def set_lastPaymentTime_def set_sub_active_def set_balance_def
  push_userStreams_def push_recipientStreams_def push_userSubscriptions_def

lemma unat_mul256: "unat a * unat b < 2 ^ 256 \<Longrightarrow> unat ((a :: uint256) * b) = unat a * unat b"
  using unat_mult_lem [of a b] by simp

lemma unat_add256: "unat a + unat b < 2 ^ 256 \<Longrightarrow> unat ((a :: uint256) + b) = unat a + unat b"
  using unat_add_lem [of a b] by simp

lemma fee_floor:
  "unat g * unat p < 2 ^ 256 \<Longrightarrow> unat (((g :: uint256) * p) div 10000) = unat g * unat p div 10000"
  by (simp add: unat_div unat_mul256)

lemma net_plus_fee:
  "f \<le> (g :: uint256) \<Longrightarrow> unat (g - f) + unat f = unat g"
  by (simp add: unat_sub word_le_nat_alt)


lemma withdrawFromStream_Inr:
  assumes "withdrawFromStream e i s = Inr s'"
  obtains rb sb where
    "recipient (streams s i) = msg_sender e" "active (streams s i)"
    "balanceOf e i s = Inr (rb, sb)" "0 < rb"
    "unat rb * unat (platformFee s) < 2 ^ 256"
    "rb * platformFee s div 10000 \<le> rb"
    "rb \<le> remainingBalance (streams s i)"
    "unat (balances s (owner s)) + unat (rb * platformFee s div 10000) < 2 ^ 256"
    "rb - rb * platformFee s div 10000 \<le> this_balance s"
    "accepts e (msg_sender e)"
    "s' = s\<lparr>streams := (streams s)(i :=
                 (if stopTime (streams s i) \<le> block_timestamp e \<or> remainingBalance (streams s i) = rb
                  then (streams s i)\<lparr>remainingBalance := remainingBalance (streams s i) - rb,
                                      active := False\<rparr>
                  else (streams s i)\<lparr>remainingBalance := remainingBalance (streams s i) - rb\<rparr>)),
             balances := (balances s)(owner s := balances s (owner s) + rb * platformFee s div 10000),
             this_balance := this_balance s - (rb - rb * platformFee s div 10000),
             trace := trace s @ [Write (StreamRemainingBalance i)]
               @ (if stopTime (streams s i) \<le> block_timestamp e \<or> remainingBalance (streams s i) = rb
                  then [Write (StreamActive i)] else [])
               @ [Write (Balances (owner s)),
                  Transfer (msg_sender e) (rb - rb * platformFee s div 10000),
                  Emit (StreamWithdrawn i (msg_sender e) (rb - rb * platformFee s div 10000))]\<rparr>"
proof -
  obtain rb sb where bal: "balanceOf e i s = Inr (rb, sb)"
    using assms by (cases "balanceOf e i s") (auto simp: withdrawFromStream_def Let_def split: if_splits)
  show thesis
  proof (cases "stopTime (streams s i) \<le> block_timestamp e \<or> remainingBalance (streams s i) = rb")
    case True
    with bal assms show thesis
      apply (intro that [of rb sb])
      apply (clarsimp simp add: withdrawFromStream_def Let_def bindE_Inr_iff checked_Inr_iff setters)+
      done
  next
    case False
    with bal assms show thesis
      apply (intro that [of rb sb])
      apply (clarsimp simp add: withdrawFromStream_def Let_def bindE_Inr_iff checked_Inr_iff setters)+
      done
  qed
qed


lemma cancelStream_Inr:
  assumes "cancelStream e i s = Inr s'"
  obtains rb sb where
    "sender (streams s i) = msg_sender e \<or> recipient (streams s i) = msg_sender e"
    "active (streams s i)"
    "balanceOf e i s = Inr (rb, sb)"
    "0 < rb \<Longrightarrow> unat rb * unat (platformFee s) < 2 ^ 256"
    "0 < rb \<Longrightarrow> rb * platformFee s div 10000 \<le> rb"
    "0 < rb \<Longrightarrow> unat (balances s (owner s)) + unat (rb * platformFee s div 10000) < 2 ^ 256"
    "s' = s\<lparr>streams := (streams s)(i := (streams s i)\<lparr>active := False, remainingBalance := 0\<rparr>),
             balances := (if 0 < rb
                          then (balances s)(owner s := balances s (owner s) + rb * platformFee s div 10000)
                          else balances s),
             this_balance := this_balance s
                             - (if 0 < rb then rb - rb * platformFee s div 10000 else 0)
                             - (if 0 < sb then sb else 0),
             trace := trace s @ [Write (StreamActive i), Write (StreamRemainingBalance i)]
               @ (if 0 < rb
                  then [Write (Balances (owner s)),
                        Transfer (recipient (streams s i)) (rb - rb * platformFee s div 10000)]
                  else [])
               @ (if 0 < sb then [Transfer (sender (streams s i)) sb] else [])
               @ [Emit (StreamCancelled i (sender (streams s i)) (recipient (streams s i)) sb rb)]\<rparr>"
proof -
  obtain rb sb where bal: "balanceOf e i s = Inr (rb, sb)"
    using assms by (cases "balanceOf e i s") (auto simp: cancelStream_def Let_def split: if_splits)
  consider "0 < rb" "0 < sb" | "0 < rb" "\<not> 0 < sb" | "\<not> 0 < rb" "0 < sb" | "\<not> 0 < rb" "\<not> 0 < sb"
    by blast
  then show thesis
  proof cases
    case 1
    with bal assms show thesis
      apply (intro that [of rb sb])
      apply (clarsimp simp add: cancelStream_def Let_def bindE_Inr_iff checked_Inr_iff setters)+
      done
  next
    case 2
    with bal assms show thesis
      apply (intro that [of rb sb])
      apply (clarsimp simp add: cancelStream_def Let_def bindE_Inr_iff checked_Inr_iff setters)+
      done
  next
    case 3
    with bal assms show thesis
      apply (intro that [of rb sb])
      apply (clarsimp simp add: cancelStream_def Let_def bindE_Inr_iff checked_Inr_iff setters)+
      done
  next
    case 4
    with bal assms show thesis
      apply (intro that [of rb sb])
      apply (clarsimp simp add: cancelStream_def Let_def bindE_Inr_iff checked_Inr_iff setters)+
      done
  qed
qed

lemma processSubscriptionPayment_Inr:
  assumes "processSubscriptionPayment e i s = Inr s'"
  obtains payment where
    "sub_active (subscriptions s i)"
    "lastPaymentTime (subscriptions s i) \<le> block_timestamp e"
    "unat (block_timestamp e - lastPaymentTime (subscriptions s i))
       * unat (sub_ratePerSecond (subscriptions s i)) < 2 ^ 256"
    "payment = (block_timestamp e - lastPaymentTime (subscriptions s i))
                 * sub_ratePerSecond (subscriptions s i)"
    "payment \<le> balances s (subscriber (subscriptions s i))"
    "unat payment * unat (platformFee s) < 2 ^ 256"
    "payment * platformFee s div 10000 \<le> payment"
    "unat (((balances s)(subscriber (subscriptions s i) :=
               balances s (subscriber (subscriptions s i)) - payment)) (owner s))
       + unat (payment * platformFee s div 10000) < 2 ^ 256"
    "payment - payment * platformFee s div 10000 \<le> this_balance s"
    "accepts e (provider (subscriptions s i))"
    "s' = s\<lparr>subscriptions := (subscriptions s)(i := (subscriptions s i)
                 \<lparr>lastPaymentTime := block_timestamp e\<rparr>),
             balances := (balances s)
               (subscriber (subscriptions s i) := balances s (subscriber (subscriptions s i)) - payment,
                owner s := ((balances s)(subscriber (subscriptions s i) :=
                               balances s (subscriber (subscriptions s i)) - payment)) (owner s)
                           + payment * platformFee s div 10000),
             this_balance := this_balance s - (payment - payment * platformFee s div 10000),
             trace := trace s @
               [Write (Balances (subscriber (subscriptions s i))),
                Write (Balances (owner s)),
                Transfer (provider (subscriptions s i)) (payment - payment * platformFee s div 10000),
                Write (SubLastPaymentTime i),
                Emit (SubscriptionPayment i (subscriber (subscriptions s i))
                        (provider (subscriptions s i))
                        (payment - payment * platformFee s div 10000))]\<rparr>"
proof -
  show thesis
    using assms
    apply (intro that [of "(block_timestamp e - lastPaymentTime (subscriptions s i))
                 * sub_ratePerSecond (subscriptions s i)"])
    apply (clarsimp simp add: processSubscriptionPayment_def Let_def bindE_Inr_iff checked_Inr_iff setters
               simp del: fun_upd_apply)+
    done
qed


lemma createStream_Inr:
  assumes "createStream e v r d rate s = Inr (i, s')"
  obtains
    "r \<noteq> 0" "r \<noteq> msg_sender e" "0 < d" "0 < rate"
    "unat rate * unat d < 2 ^ 256" "rate * d \<le> v"
    "unat (nextStreamId s) + 1 < 2 ^ 256"
    "unat (block_timestamp e) + unat d < 2 ^ 256"
    "i = nextStreamId s"
    "s' = s\<lparr>streams := (streams s)(nextStreamId s :=
                 \<lparr>stream_id = nextStreamId s, sender = msg_sender e, recipient = r,
                  deposit = rate * d, ratePerSecond = rate, startTime = block_timestamp e,
                  stopTime = block_timestamp e + d, remainingBalance = rate * d, active = True\<rparr>),
             userStreams := (userStreams s)(msg_sender e := userStreams s (msg_sender e) @ [nextStreamId s]),
             recipientStreams := ((recipientStreams s)(r := recipientStreams s r @ [nextStreamId s])),
             nextStreamId := nextStreamId s + 1,
             this_balance := this_balance s + v - (if rate * d < v then v - rate * d else 0),
             trace := trace s @
               [Write NextStreamId, Write (StreamsAt (nextStreamId s)),
                Write (UserStreams (msg_sender e)), Write (RecipientStreams r)]
               @ (if rate * d < v then [Transfer (msg_sender e) (v - rate * d)] else [])
               @ [Emit (StreamCreated (nextStreamId s) (msg_sender e) r (rate * d) rate
                          (block_timestamp e) (block_timestamp e + d))]\<rparr>"
proof (cases "rate * d < v")
  case True
  with assms show thesis
    apply (intro that)
    apply (clarsimp simp add: createStream_def Let_def bindE_Inr_iff checked_Inr_iff setters
             receive_value_def)+
    done
next
  case False
  with assms show thesis
    apply (intro that)
    apply (clarsimp simp add: createStream_def Let_def bindE_Inr_iff checked_Inr_iff setters
             receive_value_def)+
    done
qed

lemma createSubscription_Inr:
  assumes "createSubscription e v p rate s = Inr (i, s')"
  obtains
    "p \<noteq> 0" "p \<noteq> msg_sender e" "0 < rate" "0 < v"
    "unat (nextSubscriptionId s) + 1 < 2 ^ 256"
    "unat (balances s (msg_sender e)) + unat v < 2 ^ 256"
    "i = nextSubscriptionId s"
    "s' = s\<lparr>subscriptions := (subscriptions s)(nextSubscriptionId s :=
                 \<lparr>sub_id = nextSubscriptionId s, subscriber = msg_sender e, provider = p,
                  sub_ratePerSecond = rate, lastPaymentTime = block_timestamp e,
                  sub_active = True\<rparr>),
             userSubscriptions := (userSubscriptions s)
               (msg_sender e := userSubscriptions s (msg_sender e) @ [nextSubscriptionId s]),
             balances := (balances s)(msg_sender e := balances s (msg_sender e) + v),
             nextSubscriptionId := nextSubscriptionId s + 1,
             this_balance := this_balance s + v,
             trace := trace s @
               [Write NextSubscriptionId, Write (SubscriptionsAt (nextSubscriptionId s)),
                Write (UserSubscriptions (msg_sender e)), Write (Balances (msg_sender e)),
                Emit (SubscriptionCreated (nextSubscriptionId s) (msg_sender e) p rate)]\<rparr>"
proof -
  show thesis
    using assms
    apply (intro that)
    apply (clarsimp simp add: createSubscription_def Let_def bindE_Inr_iff checked_Inr_iff setters
             receive_value_def)+
    done
qed

lemma cancelSubscription_Inr:
  assumes "cancelSubscription e i s = Inr s'"
  obtains (settled) payment where
    "subscriber (subscriptions s i) = msg_sender e \<or> provider (subscriptions s i) = msg_sender e"
    "sub_active (subscriptions s i)"
    "0 < balances s (subscriber (subscriptions s i))"
    "lastPaymentTime (subscriptions s i) \<le> block_timestamp e"
    "unat (block_timestamp e - lastPaymentTime (subscriptions s i))
       * unat (sub_ratePerSecond (subscriptions s i)) < 2 ^ 256"
    "payment = (block_timestamp e - lastPaymentTime (subscriptions s i))
                 * sub_ratePerSecond (subscriptions s i)"
    "0 < payment"
    "payment \<le> balances s (subscriber (subscriptions s i))"
    "unat payment * unat (platformFee s) < 2 ^ 256"
    "payment * platformFee s div 10000 \<le> payment"
    "unat (((balances s)(subscriber (subscriptions s i) :=
               balances s (subscriber (subscriptions s i)) - payment)) (owner s))
       + unat (payment * platformFee s div 10000) < 2 ^ 256"
    "payment - payment * platformFee s div 10000 \<le> this_balance s"
    "accepts e (provider (subscriptions s i))"
    "s' = s\<lparr>subscriptions := (subscriptions s)(i := (subscriptions s i)\<lparr>sub_active := False\<rparr>),
             balances := (balances s)
               (subscriber (subscriptions s i) := balances s (subscriber (subscriptions s i)) - payment,
                owner s := ((balances s)(subscriber (subscriptions s i) :=
                               balances s (subscriber (subscriptions s i)) - payment)) (owner s)
                           + payment * platformFee s div 10000),
             this_balance := this_balance s - (payment - payment * platformFee s div 10000),
             trace := trace s @
               [Write (Balances (subscriber (subscriptions s i))),
                Write (Balances (owner s)),
                Transfer (provider (subscriptions s i)) (payment - payment * platformFee s div 10000),
                Write (SubActive i),
                Emit (SubscriptionCancelled i (subscriber (subscriptions s i)))]\<rparr>"
  | (skipped)
    "subscriber (subscriptions s i) = msg_sender e \<or> provider (subscriptions s i) = msg_sender e"
    "sub_active (subscriptions s i)"
    "balances s (subscriber (subscriptions s i)) = 0
     \<or> lastPaymentTime (subscriptions s i) \<le> block_timestamp e
       \<and> unat (block_timestamp e - lastPaymentTime (subscriptions s i))
           * unat (sub_ratePerSecond (subscriptions s i)) < 2 ^ 256
       \<and> ((block_timestamp e - lastPaymentTime (subscriptions s i))
              * sub_ratePerSecond (subscriptions s i) = 0
          \<or> balances s (subscriber (subscriptions s i))
              < (block_timestamp e - lastPaymentTime (subscriptions s i))
                  * sub_ratePerSecond (subscriptions s i))"
    "s' = s\<lparr>subscriptions := (subscriptions s)(i := (subscriptions s i)\<lparr>sub_active := False\<rparr>),
             trace := trace s @
               [Write (SubActive i),
                Emit (SubscriptionCancelled i (subscriber (subscriptions s i)))]\<rparr>"
proof (cases "0 < balances s (subscriber (subscriptions s i))")
  case False
  with assms show thesis
    apply (intro skipped)
    apply (clarsimp simp add: fun_upd_same cancelSubscription_def Let_def bindE_Inr_iff checked_Inr_iff setters
             word_gt_0 simp del: fun_upd_apply)+
    done
next
  case pos: True
  let ?p = "(block_timestamp e - lastPaymentTime (subscriptions s i))
                 * sub_ratePerSecond (subscriptions s i)"
  consider "0 < ?p" "?p \<le> balances s (subscriber (subscriptions s i))"
    | "?p = 0" | "balances s (subscriber (subscriptions s i)) < ?p"
    by (metis word_gt_0 not_le)
  then show thesis
  proof cases
    case 1
    with pos assms show thesis
      apply (intro settled [of ?p])
      apply (clarsimp simp add: fun_upd_same cancelSubscription_def Let_def bindE_Inr_iff checked_Inr_iff setters
               simp del: fun_upd_apply)+
      done
  next
    case 2
    with pos assms show thesis
      apply (intro skipped)
      apply (clarsimp simp add: fun_upd_same cancelSubscription_def Let_def bindE_Inr_iff checked_Inr_iff setters
               simp del: fun_upd_apply)+
      done
  next
    case 3
    then have "\<not> ?p \<le> balances s (subscriber (subscriptions s i))"
      by simp
    with 3 pos assms show thesis
      apply (intro skipped)
      apply (clarsimp simp add: fun_upd_same cancelSubscription_def Let_def bindE_Inr_iff checked_Inr_iff setters
               simp del: fun_upd_apply)+
      done
  qed
qed

lemma topUpSubscription_Inr:
  assumes "topUpSubscription e v i s = Inr s'"
  obtains
    "subscriber (subscriptions s i) = msg_sender e" "sub_active (subscriptions s i)" "0 < v"
    "unat (balances s (msg_sender e)) + unat v < 2 ^ 256"
    "s' = s\<lparr>balances := (balances s)(msg_sender e := balances s (msg_sender e) + v),
             this_balance := this_balance s + v,
             trace := trace s @ [Write (Balances (msg_sender e))]\<rparr>"
proof -
  show thesis
    using assms
    apply (intro that)
    apply (clarsimp simp add: topUpSubscription_def Let_def bindE_Inr_iff checked_Inr_iff setters
             receive_value_def)+
    done
qed

lemma withdraw_Inr:
  assumes "withdraw e s = Inr s'"
  obtains
    "0 < balances s (msg_sender e)" "balances s (msg_sender e) \<le> this_balance s"
    "accepts e (msg_sender e)"
    "s' = s\<lparr>balances := (balances s)(msg_sender e := 0),
             this_balance := this_balance s - balances s (msg_sender e),
             trace := trace s @ [Write (Balances (msg_sender e)),
                                 Transfer (msg_sender e) (balances s (msg_sender e))]\<rparr>"
proof -
  show thesis
    using assms
    apply (intro that)
    apply (clarsimp simp add: withdraw_def Let_def bindE_Inr_iff checked_Inr_iff setters)+
    done
qed

lemma setPlatformFee_Inr:
  assumes "setPlatformFee e f s = Inr s'"
  obtains "msg_sender e = owner s" "f \<le> 1000"
    "s' = s\<lparr>platformFee := f, trace := trace s @ [Write PlatformFee]\<rparr>"
proof -
  show thesis
    using assms
    apply (intro that)
    apply (clarsimp simp add: setPlatformFee_def checked_Inr_iff setters split: if_splits)+
    done
qed

section \<open>The invariant holds in every reachable state\<close>

lemma allocated_next:
  assumes "0 < nextStreamId s" "unat (nextStreamId s) + 1 < 2 ^ 256"
  shows "0 < j \<and> j < nextStreamId s + 1 \<longleftrightarrow> (0 < j \<and> j < nextStreamId s) \<or> j = nextStreamId s"
proof -
  have "unat (nextStreamId s + 1) = unat (nextStreamId s) + 1"
    using assms(2) unat_add256 [of "nextStreamId s" 1] by simp
  then show ?thesis
    using assms(1) by (auto simp: word_less_nat_alt word_unat_eq_iff)
qed

lemma created_new:
  assumes "unat rate * unat d < 2 ^ 256" "unat t + unat d < 2 ^ 256"
  shows "created \<lparr>stream_id = n, sender = a, recipient = r, deposit = rate * d,
           ratePerSecond = rate, startTime = t, stopTime = t + d,
           remainingBalance = rate * d, active = True\<rparr>"
  using assms by (simp add: created_def unat_mul256 unat_add256 word_le_nat_alt)

lemma createStream_inv:
  assumes "ledger_inv s" "createStream e v r d rate s = Inr (i, s')"
  shows "ledger_inv s'"
  using assms(2)
proof (cases rule: createStream_Inr)
  case 1
  have n: "0 < nextStreamId s" using assms(1) by (simp add: ledger_inv_def)
  have al: "allocated s' j \<longleftrightarrow> allocated s j \<or> j = nextStreamId s" for j
    using allocated_next [OF n 1(7)] by (simp add: allocated_def 1(10))
  have "0 < nextStreamId s'"
    using al [of "nextStreamId s"] by (auto simp: allocated_def)
  moreover have "streams s' j = zero_stream" if "\<not> allocated s' j" for j
    using that assms(1) al [of j] by (auto simp: ledger_inv_def 1(10))
  moreover have "stream_id (streams s' j) = j \<and> created (streams s' j)" if "allocated s' j" for j
    using that assms(1) al [of j] created_new [OF 1(5,8)] by (auto simp: ledger_inv_def 1(10))
  ultimately show ?thesis
    by (simp add: ledger_inv_def)
qed


lemma inv_active_allocated: "ledger_inv s \<Longrightarrow> active (streams s i) \<Longrightarrow> allocated s i"
  by (auto simp: ledger_inv_def zero_stream_def)

lemma ledger_inv_same_streams:
  "ledger_inv s \<Longrightarrow> streams s' = streams s \<Longrightarrow> nextStreamId s' = nextStreamId s \<Longrightarrow> ledger_inv s'"
  by (simp add: ledger_inv_def allocated_def)

lemma ledger_inv_update:
  assumes "ledger_inv s" "allocated s i" "nextStreamId s' = nextStreamId s"
    "streams s' = (streams s)(i := st)" "stream_id st = i" "created st"
  shows "ledger_inv s'"
  using assms by (auto simp: ledger_inv_def allocated_def)

lemma withdrawFromStream_inv:
  assumes "ledger_inv s" "withdrawFromStream e i s = Inr s'"
  shows "ledger_inv s'"
  using assms(2)
proof (cases rule: withdrawFromStream_Inr)
  case (1 rb sb)
  have a: "allocated s i" using assms(1) 1(2) by (rule inv_active_allocated)
  then have c: "stream_id (streams s i) = i" "created (streams s i)"
    using assms(1) by (auto simp: ledger_inv_def)
  have "remainingBalance (streams s i) \<le> deposit (streams s i)"
    using c(2) by (simp add: created_def)
  then have le: "remainingBalance (streams s i) - rb \<le> deposit (streams s i)"
    using 1(7) by (simp add: word_le_nat_alt unat_sub)
  show ?thesis
    using assms(1) a
  proof (rule ledger_inv_update)
    show "nextStreamId s' = nextStreamId s" by (simp add: 1(11))
    show "streams s' = (streams s)(i := streams s' i)" by (simp add: 1(11))
    show "stream_id (streams s' i) = i" using c(1) by (simp add: 1(11))
    show "created (streams s' i)" using c(2) le by (simp add: 1(11) created_def)
  qed
qed

lemma cancelStream_inv:
  assumes "ledger_inv s" "cancelStream e i s = Inr s'"
  shows "ledger_inv s'"
  using assms(2)
proof (cases rule: cancelStream_Inr)
  case (1 rb sb)
  have a: "allocated s i" using assms(1) 1(2) by (rule inv_active_allocated)
  then have c: "stream_id (streams s i) = i" "created (streams s i)"
    using assms(1) by (auto simp: ledger_inv_def)
  show ?thesis
    using assms(1) a
  proof (rule ledger_inv_update)
    show "nextStreamId s' = nextStreamId s" by (simp add: 1(7))
    show "streams s' = (streams s)(i := streams s' i)" by (simp add: 1(7))
    show "stream_id (streams s' i) = i" using c(1) by (simp add: 1(7))
    show "created (streams s' i)" using c(2) by (simp add: 1(7) created_def)
  qed
qed

lemma exec_inv:
  assumes "ledger_inv s" "exec e c s = Inr s'"
  shows "ledger_inv s'"
proof (cases c)
  case (CreateStream v r d rate)
  then show ?thesis
    using assms by (auto simp: bindE_Inr_iff dest: createStream_inv)
next
  case (WithdrawFromStream i)
  then show ?thesis using assms by (auto dest: withdrawFromStream_inv)
next
  case (CancelStream i)
  then show ?thesis using assms by (auto dest: cancelStream_inv)
next
  case (CreateSubscription v p rate)
  then obtain i where "createSubscription e v p rate s = Inr (i, s')"
    using assms(2) by (auto simp: bindE_Inr_iff)
  then show ?thesis
    by (cases rule: createSubscription_Inr) (simp add: ledger_inv_same_streams [OF assms(1)])
next
  case (ProcessSubscriptionPayment i)
  then have "processSubscriptionPayment e i s = Inr s'" using assms(2) by simp
  then show ?thesis
    by (cases rule: processSubscriptionPayment_Inr) (simp add: ledger_inv_same_streams [OF assms(1)])
next
  case (CancelSubscription i)
  then have "cancelSubscription e i s = Inr s'" using assms(2) by simp
  then show ?thesis
    by (cases rule: cancelSubscription_Inr) (simp_all add: ledger_inv_same_streams [OF assms(1)])
next
  case (TopUpSubscription v i)
  then have "topUpSubscription e v i s = Inr s'" using assms(2) by simp
  then show ?thesis
    by (cases rule: topUpSubscription_Inr) (simp add: ledger_inv_same_streams [OF assms(1)])
next
  case Withdraw
  then have "withdraw e s = Inr s'" using assms(2) by simp
  then show ?thesis
    by (cases rule: withdraw_Inr) (simp add: ledger_inv_same_streams [OF assms(1)])
next
  case (SetPlatformFee f)
  then have "setPlatformFee e f s = Inr s'" using assms(2) by simp
  then show ?thesis
    by (cases rule: setPlatformFee_Inr) (simp add: ledger_inv_same_streams [OF assms(1)])
next
  case (SetOwner a)
  then show ?thesis
    using assms by (auto split: if_splits intro: ledger_inv_same_streams)
qed

lemma deployed_inv: "ledger_inv (deployed d)"
  by (simp add: ledger_inv_def deployed_def allocated_def)

lemma reachable_inv: "reachable s \<Longrightarrow> ledger_inv s"
  by (induction rule: reachable.induct) (auto intro: deployed_inv exec_inv)

lemma reachable_run: "reachable s \<Longrightarrow> reachable (run cs s)"
proof (induction cs arbitrary: s)
  case Nil
  then show ?case by simp
next
  case (Cons ec cs)
  obtain e c where ec: "ec = (e, c)" by (cases ec)
  show ?case
  proof (cases "exec e c s")
    case (Inl err)
    then show ?thesis using Cons ec by simp
  next
    case (Inr s')
    then have "reachable s'" using Cons.prems by (rule reachable.call [rotated])
    then show ?thesis using Cons.IH Inr ec by simp
  qed
qed



section \<open>The scenarios, evaluated\<close>

lemmas run_defs = createStream_def balanceOf_def withdrawFromStream_def cancelStream_def
  createSubscription_def processSubscriptionPayment_def cancelSubscription_def
  topUpSubscription_def withdraw_def setPlatformFee_def
  add256_def sub256_def mul256_def transfer_def receive_value_def setters
  at_time_def deployed_def Let_def

lemma stream_opened_state:
  "stream_opened = \<lparr>streams = (\<lambda>_. zero_stream)(1 :=
        \<lparr>stream_id = 1, sender = 2, recipient = 3, deposit = 3600, ratePerSecond = 1,
         startTime = 1000, stopTime = 4600, remainingBalance = 3600, active = True\<rparr>),
      subscriptions = (\<lambda>_. zero_subscription),
      userStreams = (\<lambda>_. [])(2 := [1]), recipientStreams = (\<lambda>_. [])(3 := [1]),
      userSubscriptions = (\<lambda>_. []), balances = (\<lambda>_. 0),
      nextStreamId = 2, nextSubscriptionId = 1, platformFee = 10, owner = 1,
      this_balance = 3600,
      trace = [Write NextStreamId, Write (StreamsAt 1), Write (UserStreams 2),
               Write (RecipientStreams 3), Emit (StreamCreated 1 2 3 3600 1 1000 4600)]\<rparr>"
  by (simp add: stream_opened_def run_defs)

lemma withdraw_halfway:
  "withdrawFromStream (at_time 2800 3) 1 stream_opened =
     Inr (stream_opened\<lparr>streams := (streams stream_opened)(1 :=
              (streams stream_opened 1)\<lparr>remainingBalance := 1800\<rparr>),
            balances := (\<lambda>_. 0)(1 := 1), this_balance := 1801,
            trace := trace stream_opened @ [Write (StreamRemainingBalance 1), Write (Balances 1),
               Transfer 3 1799, Emit (StreamWithdrawn 1 3 1799)]\<rparr>)"
  by (simp add: stream_opened_state run_defs)


lemma stream_withdrawn_halfway_state:
  "stream_withdrawn_halfway = stream_opened\<lparr>streams := (streams stream_opened)(1 :=
              (streams stream_opened 1)\<lparr>remainingBalance := 1800\<rparr>),
            balances := (\<lambda>_. 0)(1 := 1), this_balance := 1801,
            trace := trace stream_opened @ [Write (StreamRemainingBalance 1), Write (Balances 1),
               Transfer 3 1799, Emit (StreamWithdrawn 1 3 1799)]\<rparr>"
  by (simp add: stream_withdrawn_halfway_def withdraw_halfway)


lemma cancel_early:
  "cancelStream (at_time 1900 2) 1 stream_opened =
     Inr (stream_opened\<lparr>streams := (streams stream_opened)(1 :=
              (streams stream_opened 1)\<lparr>remainingBalance := 0, active := False\<rparr>),
            balances := (\<lambda>_. 0)(1 := 0), this_balance := 0,
            trace := trace stream_opened @ [Write (StreamActive 1), Write (StreamRemainingBalance 1),
               Write (Balances 1), Transfer 3 900, Transfer 2 2700,
               Emit (StreamCancelled 1 2 3 2700 900)]\<rparr>)"
  by (simp add: stream_opened_state run_defs)

lemma stream_cancelled_early_state:
  "stream_cancelled_early = stream_opened\<lparr>streams := (streams stream_opened)(1 :=
              (streams stream_opened 1)\<lparr>remainingBalance := 0, active := False\<rparr>),
            balances := (\<lambda>_. 0)(1 := 0), this_balance := 0,
            trace := trace stream_opened @ [Write (StreamActive 1), Write (StreamRemainingBalance 1),
               Write (Balances 1), Transfer 3 900, Transfer 2 2700,
               Emit (StreamCancelled 1 2 3 2700 900)]\<rparr>"
  by (simp add: stream_cancelled_early_def cancel_early)

lemma subscription_opened_state:
  "subscription_opened = \<lparr>streams = (\<lambda>_. zero_stream),
      subscriptions = (\<lambda>_. zero_subscription)(1 :=
        \<lparr>sub_id = 1, subscriber = 2, provider = 3, sub_ratePerSecond = 5,
         lastPaymentTime = 1000, sub_active = True\<rparr>),
      userStreams = (\<lambda>_. []), recipientStreams = (\<lambda>_. []),
      userSubscriptions = (\<lambda>_. [])(2 := [1]), balances = (\<lambda>_. 0)(2 := 100),
      nextStreamId = 1, nextSubscriptionId = 2, platformFee = 10, owner = 1,
      this_balance = 100,
      trace = [Write NextSubscriptionId, Write (SubscriptionsAt 1), Write (UserSubscriptions 2),
               Write (Balances 2), Emit (SubscriptionCreated 1 2 3 5)]\<rparr>"
  by (simp add: subscription_opened_def run_defs)

lemma settle_after_ten_seconds:
  "processSubscriptionPayment (at_time 1010 4) 1 subscription_opened =
     Inr (subscription_opened\<lparr>subscriptions := (subscriptions subscription_opened)(1 :=
              (subscriptions subscription_opened 1)\<lparr>lastPaymentTime := 1010\<rparr>),
            balances := (\<lambda>_. 0)(2 := 50, 1 := 0), this_balance := 50,
            trace := trace subscription_opened @ [Write (Balances 2), Write (Balances 1),
               Transfer 3 50, Write (SubLastPaymentTime 1),
               Emit (SubscriptionPayment 1 2 3 50)]\<rparr>)"
  by (simp add: subscription_opened_state run_defs)

lemma subscription_settled_state:
  "subscription_settled = subscription_opened\<lparr>subscriptions := (subscriptions subscription_opened)(1 :=
              (subscriptions subscription_opened 1)\<lparr>lastPaymentTime := 1010\<rparr>),
            balances := (\<lambda>_. 0)(2 := 50, 1 := 0), this_balance := 50,
            trace := trace subscription_opened @ [Write (Balances 2), Write (Balances 1),
               Transfer 3 50, Write (SubLastPaymentTime 1),
               Emit (SubscriptionPayment 1 2 3 50)]\<rparr>"
  by (simp add: subscription_settled_def settle_after_ten_seconds)

lemma withdraw_halfway_returns:
  "withdrawFromStream (at_time 2800 3) 1 stream_opened = Inr stream_withdrawn_halfway"
  by (simp add: stream_withdrawn_halfway_state withdraw_halfway)

lemma cancel_early_returns:
  "cancelStream (at_time 1900 2) 1 stream_opened = Inr stream_cancelled_early"
  by (simp add: stream_cancelled_early_state cancel_early)

lemma settle_returns:
  "processSubscriptionPayment (at_time 1010 4) 1 subscription_opened = Inr subscription_settled"
  by (simp add: subscription_settled_state settle_after_ten_seconds)

lemma subscription_cancelled_state:
  "cancelSubscription (at_time 1010 3) 1 subscription_opened = Inr subscription_cancelled
   \<and> subscription_cancelled = subscription_opened\<lparr>subscriptions := (subscriptions subscription_opened)(1 :=
              (subscriptions subscription_opened 1)\<lparr>sub_active := False\<rparr>),
            balances := (\<lambda>_. 0)(2 := 50, 1 := 0), this_balance := 50,
            trace := trace subscription_opened @ [Write (Balances 2), Write (Balances 1),
               Transfer 3 50, Write (SubActive 1), Emit (SubscriptionCancelled 1 2)]\<rparr>"
  by (simp add: subscription_cancelled_def)
     (simp add: subscription_opened_state run_defs)

lemma subscription_topped_up_state:
  "topUpSubscription (at_time 1040 2) 100 1 subscription_opened = Inr subscription_topped_up
   \<and> subscription_topped_up = subscription_opened\<lparr>balances := (\<lambda>_. 0)(2 := 200), this_balance := 200,
            trace := trace subscription_opened @ [Write (Balances 2)]\<rparr>"
  by (simp add: subscription_topped_up_def)
     (simp add: subscription_opened_state run_defs)

lemma subscription_settled_late_state:
  "processSubscriptionPayment (at_time 1040 4) 1 subscription_topped_up = Inr subscription_settled_late
   \<and> subscription_settled_late = subscription_topped_up\<lparr>subscriptions := (subscriptions subscription_topped_up)(1 :=
              (subscriptions subscription_topped_up 1)\<lparr>lastPaymentTime := 1040\<rparr>),
            balances := (\<lambda>_. 0)(2 := 0, 1 := 0), this_balance := 0,
            trace := trace subscription_topped_up @ [Write (Balances 2), Write (Balances 1),
               Transfer 3 200, Write (SubLastPaymentTime 1),
               Emit (SubscriptionPayment 1 2 3 200)]\<rparr>"
  by (simp add: subscription_settled_late_def)
     (simp add: subscription_topped_up_state subscription_opened_state run_defs)

lemma reachable_stream_opened: "reachable stream_opened"
  unfolding stream_opened_def by (rule reachable_run) (rule reachable.deployed)

section \<open>Stream accrual\<close>

text \<open>
  While the sender's share is not zero, the two balances of an active stream add up to the
  deposit, whatever has been withdrawn.
\<close>

lemma balanceOf_before_full_vesting:
  assumes "balanceOf e i s = Inr (rb, sb)" and "active (streams s i)" and "sb \<noteq> 0"
  shows "unat rb + unat sb = unat (deposit (streams s i))"
proof -
  let ?st = "streams s i"
  obtain el where el: "(if stopTime ?st \<le> block_timestamp e
                        then sub256 (stopTime ?st) (startTime ?st)
                        else sub256 (block_timestamp e) (startTime ?st)) = Inr el"
    using assms(1,2)
    by (cases "if stopTime ?st \<le> block_timestamp e
                        then sub256 (stopTime ?st) (startTime ?st)
                        else sub256 (block_timestamp e) (startTime ?st)")
       (simp_all add: balanceOf_def Let_def if_Inl_eq_Inr)
  have rest: "bindE (mul256 el (ratePerSecond ?st)) (\<lambda>earned.
         if deposit ?st \<le> earned then Inr (remainingBalance ?st, 0)
         else bindE (sub256 (deposit ?st) earned) (\<lambda>senderBalance.
           Inr (earned, senderBalance))) = Inr (rb, sb)"
    using assms(1,2) el by (simp add: balanceOf_def Let_def if_Inl_eq_Inr)
  then obtain earned where m: "mul256 el (ratePerSecond ?st) = Inr earned"
    and r: "(if deposit ?st \<le> earned then Inr (remainingBalance ?st, 0)
         else bindE (sub256 (deposit ?st) earned) (\<lambda>senderBalance.
           Inr (earned, senderBalance))) = Inr (rb, sb)"
    by (auto simp: bindE_Inr_iff)
  have part: "\<not> deposit ?st \<le> earned"
    using r assms(3) by (auto split: if_splits)
  then have "rb = earned" "sb = deposit ?st - earned" "earned \<le> deposit ?st"
    using r by (auto simp: sub256_def split: if_splits)
  then show ?thesis
    by (simp add: unat_sub word_le_nat_alt)
qed

text \<open>
  Claim C1. For every active stream, at every time before its \<open>stopTime\<close>, the pair that
  \<open>balanceOf\<close> returns sums to \<open>remainingBalance\<close>, also after a partial withdrawal has
  brought \<open>remainingBalance\<close> below \<open>deposit\<close>.

  The code does not do this. Before the stream is fully vested \<open>balanceOf\<close> returns
  \<open>(earned, deposit - earned)\<close>, computed from the start of the stream, and never looks at
  \<open>remainingBalance\<close>; only the fully vested branch does. In the scenario the recipient
  withdraws 1800 half way, which leaves \<open>remainingBalance = 1800\<close> on an active stream; 200
  seconds later \<open>balanceOf\<close> returns \<open>(2000, 1600)\<close>, which sums to the deposit 3600 and
  not to 1800.
\<close>

theorem balanceOf_after_partial_withdrawal:
  "withdrawFromStream (at_time 2800 3) 1 stream_opened = Inr stream_withdrawn_halfway
   \<and> active (streams stream_withdrawn_halfway 1)
   \<and> block_timestamp (at_time 3000 3) < stopTime (streams stream_withdrawn_halfway 1)
   \<and> remainingBalance (streams stream_withdrawn_halfway 1) = 1800
   \<and> balanceOf (at_time 3000 3) 1 stream_withdrawn_halfway = Inr (2000, 1600)
   \<and> (2000 :: uint256) + 1600 \<noteq> 1800"
  by (simp add: withdraw_halfway_returns)
     (simp add: stream_withdrawn_halfway_state stream_opened_state run_defs)

section \<open>The withdrawal scenario\<close>

lemma balanceOf_Inr_exists: "balanceOf e i s = Inr p \<Longrightarrow> stream_id (streams s i) \<noteq> 0"
  by (rule ccontr) (simp add: balanceOf_def)

text \<open>
  Claim C2, as the code has it. A stream of 3600 units at 1 unit per second over 3600
  seconds, nothing withdrawn so far, with a platform fee of 10: at \<open>startTime + 1800\<close>
  \<open>balanceOf\<close> returns \<open>(1800, 1800)\<close>, and a withdrawal at that time pays the recipient
  1799, adds 1 to the balance entry of the platform account, leaves
  \<open>remainingBalance = 1800\<close> and leaves the stream active.

  The fee is \<open>floor (1800 * 10 / 10000) = floor 1.8 = 1\<close>, so the recipient receives
  \<open>1800 - 1 = 1799\<close>. The theorem holds for every ledger and every stream with these
  figures, whoever the parties are and whenever the stream starts.
\<close>

theorem withdrawal_half_way:
  assumes "withdrawFromStream e i s = Inr s'"
    and "deposit (streams s i) = 3600" and "ratePerSecond (streams s i) = 1"
    and "remainingBalance (streams s i) = 3600"
    and "unat (startTime (streams s i)) + 3600 < 2 ^ 256"
    and "stopTime (streams s i) = startTime (streams s i) + 3600"
    and "block_timestamp e = startTime (streams s i) + 1800"
    and "platformFee s = 10"
  shows "balanceOf e i s = Inr (1800, 1800)
       \<and> payouts (effects_of s s') = [(recipient (streams s i), 1799)]
       \<and> unat (balances s' (owner s)) = unat (balances s (owner s)) + 1
       \<and> remainingBalance (streams s' i) = 1800
       \<and> active (streams s' i)"
  using assms(1)
proof (cases rule: withdrawFromStream_Inr)
  case (1 rb sb)
  let ?st = "streams s i"
  have idn: "stream_id ?st \<noteq> 0"
    using 1(3) by (rule balanceOf_Inr_exists)
  have u1: "unat (startTime ?st + 3600) = unat (startTime ?st) + 3600"
    using assms(5) unat_add256 [of "startTime ?st" 3600] by simp
  have u2: "unat (startTime ?st + 1800) = unat (startTime ?st) + 1800"
    using assms(5) unat_add256 [of "startTime ?st" 1800] by simp
  have before: "\<not> stopTime ?st \<le> block_timestamp e"
    by (simp add: assms(6,7) word_le_nat_alt u1 u2)
  have after: "startTime ?st \<le> block_timestamp e"
    by (simp add: assms(7) word_le_nat_alt u2)
  have bal: "balanceOf e i s = Inr (1800, 1800)"
    using idn 1(2) before after
    by (simp add: balanceOf_def Let_def sub256_def mul256_def assms(2,3,7))
  then have rb: "rb = 1800"
    using 1(3) by simp
  have st': "streams s' i = ?st\<lparr>remainingBalance := 1800\<rparr>"
    using before by (simp add: 1(11) rb assms(4))
  have "payouts (effects_of s s') = [(recipient ?st, 1799)]"
    by (simp add: 1(11) 1(1) rb assms(8) effects_of_def)
  moreover have "unat (balances s' (owner s)) = unat (balances s (owner s)) + 1"
    using 1(8) unat_add256 [of "balances s (owner s)" 1]
    by (simp add: 1(11) rb assms(8))
  ultimately show ?thesis
    using bal st' 1(2) by simp
qed

theorem withdrawal_half_way_witness:
  "withdrawFromStream (at_time 2800 3) 1 stream_opened = Inr stream_withdrawn_halfway
   \<and> deposit (streams stream_opened 1) = 3600
   \<and> ratePerSecond (streams stream_opened 1) = 1
   \<and> remainingBalance (streams stream_opened 1) = 3600
   \<and> unat (startTime (streams stream_opened 1)) + 3600 < 2 ^ 256
   \<and> stopTime (streams stream_opened 1) = startTime (streams stream_opened 1) + 3600
   \<and> block_timestamp (at_time 2800 3) = startTime (streams stream_opened 1) + 1800
   \<and> platformFee stream_opened = 10
   \<and> balanceOf (at_time 2800 3) 1 stream_opened = Inr (1800, 1800)
   \<and> payouts (effects_of stream_opened stream_withdrawn_halfway)
       = [(recipient (streams stream_opened 1), 1799)]
   \<and> unat (balances stream_withdrawn_halfway (owner stream_opened))
       = unat (balances stream_opened (owner stream_opened)) + 1
   \<and> remainingBalance (streams stream_withdrawn_halfway 1) = 1800
   \<and> active (streams stream_withdrawn_halfway 1)"
proof -
  have h: "deposit (streams stream_opened 1) = 3600"
    "ratePerSecond (streams stream_opened 1) = 1"
    "remainingBalance (streams stream_opened 1) = 3600"
    "unat (startTime (streams stream_opened 1)) + 3600 < 2 ^ 256"
    "stopTime (streams stream_opened 1) = startTime (streams stream_opened 1) + 3600"
    "block_timestamp (at_time 2800 3) = startTime (streams stream_opened 1) + 1800"
    "platformFee stream_opened = 10"
    by (simp_all add: stream_opened_state at_time_def)
  show ?thesis
    using withdrawal_half_way [OF withdraw_halfway_returns h] withdraw_halfway_returns h
    by simp
qed

text \<open>
  Claim C2 as the specification states it, with a payout of 1798 and a fee of 2, fails: in
  the scenario the recipient receives 1799 and the platform account gains 1.
\<close>

theorem halfway_withdrawal_is_not_1798_and_2:
  "balanceOf (at_time 2800 3) 1 stream_opened = Inr (1800, 1800)
   \<and> platformFee stream_opened = 10
   \<and> withdrawFromStream (at_time 2800 3) 1 stream_opened = Inr stream_withdrawn_halfway
   \<and> payouts (effects_of stream_opened stream_withdrawn_halfway) = [(3, 1799)]
   \<and> payouts (effects_of stream_opened stream_withdrawn_halfway) \<noteq> [(3, 1798)]
   \<and> balances stream_withdrawn_halfway (owner stream_opened)
       = balances stream_opened (owner stream_opened) + 1
   \<and> balances stream_withdrawn_halfway (owner stream_opened)
       \<noteq> balances stream_opened (owner stream_opened) + 2"
  by (simp add: withdraw_halfway_returns)
     (simp add: stream_withdrawn_halfway_state stream_opened_state effects_of_def run_defs)

section \<open>Fees\<close>

text \<open>
  Claim C4. On every settlement (stream withdrawal, the recipient's side of a stream
  cancellation, subscription settlement) the fee is
  \<open>floor (gross * platformFee / 10000)\<close> and the net payout plus the fee is the gross amount.

  The gross amount is the recipient balance of \<open>balanceOf\<close>, respectively the payment of the
  elapsed time. The fee is what the call adds to the balance entry of the owner, the net
  amount is what it transfers. All quantities are read as natural numbers, so the equations
  also say that nothing wrapped around. A cancellation with nothing earned takes no fee and
  pays the recipient nothing.
\<close>

theorem fee_is_floor_and_net_plus_fee_is_gross:
  "(withdrawFromStream e1 i1 s1 = Inr s1' \<longrightarrow>
      (\<exists>rb sb (fee :: uint256) net. balanceOf e1 i1 s1 = Inr (rb, sb)
         \<and> unat fee = unat rb * unat (platformFee s1) div 10000
         \<and> unat net + unat fee = unat rb
         \<and> payouts (effects_of s1 s1') = [(msg_sender e1, net)]
         \<and> unat (balances s1' (owner s1)) = unat (balances s1 (owner s1)) + unat fee))
   \<and> (cancelStream e2 i2 s2 = Inr s2' \<longrightarrow>
      (\<exists>rb sb (fee :: uint256) net. balanceOf e2 i2 s2 = Inr (rb, sb)
         \<and> unat fee = unat rb * unat (platformFee s2) div 10000
         \<and> unat net + unat fee = unat rb
         \<and> payouts (effects_of s2 s2') =
               (if 0 < rb then [(recipient (streams s2 i2), net)] else [])
               @ (if 0 < sb then [(sender (streams s2 i2), sb)] else [])
         \<and> unat (balances s2' (owner s2)) = unat (balances s2 (owner s2)) + unat fee))
   \<and> (processSubscriptionPayment e3 i3 s3 = Inr s3' \<longrightarrow>
      (\<exists>payment (fee :: uint256) net.
         unat payment = (unat (block_timestamp e3) - unat (lastPaymentTime (subscriptions s3 i3)))
                          * unat (sub_ratePerSecond (subscriptions s3 i3))
         \<and> unat fee = unat payment * unat (platformFee s3) div 10000
         \<and> unat net + unat fee = unat payment
         \<and> payouts (effects_of s3 s3') = [(provider (subscriptions s3 i3), net)]
         \<and> unat (balances s3' (owner s3)) =
               unat (if owner s3 = subscriber (subscriptions s3 i3)
                     then balances s3 (owner s3) - payment else balances s3 (owner s3))
               + unat fee))"
proof (intro conjI impI)
  assume "withdrawFromStream e1 i1 s1 = Inr s1'"
  then show "\<exists>rb sb (fee :: uint256) net. balanceOf e1 i1 s1 = Inr (rb, sb)
         \<and> unat fee = unat rb * unat (platformFee s1) div 10000
         \<and> unat net + unat fee = unat rb
         \<and> payouts (effects_of s1 s1') = [(msg_sender e1, net)]
         \<and> unat (balances s1' (owner s1)) = unat (balances s1 (owner s1)) + unat fee"
  proof (cases rule: withdrawFromStream_Inr)
    case (1 rb sb)
    let ?fee = "rb * platformFee s1 div 10000"
    have "unat ?fee = unat rb * unat (platformFee s1) div 10000"
      using 1(5) by (rule fee_floor)
    moreover have "unat (rb - ?fee) + unat ?fee = unat rb"
      using 1(6) by (rule net_plus_fee)
    moreover have "payouts (effects_of s1 s1') = [(msg_sender e1, rb - ?fee)]"
      by (simp add: 1(11) effects_of_def)
    moreover have "unat (balances s1' (owner s1)) = unat (balances s1 (owner s1)) + unat ?fee"
      using 1(8) by (simp add: 1(11) unat_add256)
    ultimately show ?thesis
      using 1(3)
      apply -
      apply (intro exI conjI; assumption)
      done
  qed
next
  assume "cancelStream e2 i2 s2 = Inr s2'"
  then show "\<exists>rb sb (fee :: uint256) net. balanceOf e2 i2 s2 = Inr (rb, sb)
         \<and> unat fee = unat rb * unat (platformFee s2) div 10000
         \<and> unat net + unat fee = unat rb
         \<and> payouts (effects_of s2 s2') =
               (if 0 < rb then [(recipient (streams s2 i2), net)] else [])
               @ (if 0 < sb then [(sender (streams s2 i2), sb)] else [])
         \<and> unat (balances s2' (owner s2)) = unat (balances s2 (owner s2)) + unat fee"
  proof (cases rule: cancelStream_Inr)
    case (1 rb sb)
    let ?fee = "rb * platformFee s2 div 10000"
    show ?thesis
    proof (cases "0 < rb")
      case True
      have "unat ?fee = unat rb * unat (platformFee s2) div 10000"
        using 1(4) [OF True] by (rule fee_floor)
      moreover have "unat (rb - ?fee) + unat ?fee = unat rb"
        using 1(5) [OF True] by (rule net_plus_fee)
      moreover have "payouts (effects_of s2 s2') =
               (if 0 < rb then [(recipient (streams s2 i2), rb - ?fee)] else [])
               @ (if 0 < sb then [(sender (streams s2 i2), sb)] else [])"
        using True by (simp add: 1(7) effects_of_def)
      moreover have "unat (balances s2' (owner s2)) = unat (balances s2 (owner s2)) + unat ?fee"
        using 1(6) [OF True] True by (simp add: 1(7) unat_add256)
      ultimately show ?thesis
        using 1(3)
        apply -
        apply (intro exI conjI; assumption)
        done
    next
      case False
      then have z: "rb = 0" by (simp add: word_gt_0)
      have "unat (0 :: uint256) = unat rb * unat (platformFee s2) div 10000"
        by (simp add: z)
      moreover have "unat (0 :: uint256) + unat (0 :: uint256) = unat rb"
        by (simp add: z)
      moreover have "payouts (effects_of s2 s2') =
               (if 0 < rb then [(recipient (streams s2 i2), 0)] else [])
               @ (if 0 < sb then [(sender (streams s2 i2), sb)] else [])"
        by (simp add: 1(7) z effects_of_def)
      moreover have "unat (balances s2' (owner s2)) = unat (balances s2 (owner s2)) + unat (0 :: uint256)"
        by (simp add: 1(7) z)
      ultimately show ?thesis
        using 1(3)
        apply -
        apply (intro exI conjI; assumption)
        done
    qed
  qed
next
  assume "processSubscriptionPayment e3 i3 s3 = Inr s3'"
  then show "\<exists>payment (fee :: uint256) net.
         unat payment = (unat (block_timestamp e3) - unat (lastPaymentTime (subscriptions s3 i3)))
                          * unat (sub_ratePerSecond (subscriptions s3 i3))
         \<and> unat fee = unat payment * unat (platformFee s3) div 10000
         \<and> unat net + unat fee = unat payment
         \<and> payouts (effects_of s3 s3') = [(provider (subscriptions s3 i3), net)]
         \<and> unat (balances s3' (owner s3)) =
               unat (if owner s3 = subscriber (subscriptions s3 i3)
                     then balances s3 (owner s3) - payment else balances s3 (owner s3))
               + unat fee"
  proof (cases rule: processSubscriptionPayment_Inr)
    case (1 payment)
    let ?fee = "payment * platformFee s3 div 10000"
    have "unat payment = (unat (block_timestamp e3) - unat (lastPaymentTime (subscriptions s3 i3)))
                          * unat (sub_ratePerSecond (subscriptions s3 i3))"
      using 1(2,3) by (simp add: 1(4) unat_mul256 unat_sub)
    moreover have "unat ?fee = unat payment * unat (platformFee s3) div 10000"
      using 1(6) by (rule fee_floor)
    moreover have "unat (payment - ?fee) + unat ?fee = unat payment"
      using 1(7) by (rule net_plus_fee)
    moreover have "payouts (effects_of s3 s3') = [(provider (subscriptions s3 i3), payment - ?fee)]"
      by (simp add: 1(11) effects_of_def)
    moreover have "unat (balances s3' (owner s3)) =
               unat (if owner s3 = subscriber (subscriptions s3 i3)
                     then balances s3 (owner s3) - payment else balances s3 (owner s3))
               + unat ?fee"
      using 1(8) by (auto simp add: 1(11) unat_add256)
    ultimately show ?thesis
      apply -
      apply (intro exI conjI; assumption)
      done
  qed
qed

theorem fee_is_floor_and_net_plus_fee_is_gross_witness:
  "withdrawFromStream (at_time 2800 3) 1 stream_opened = Inr stream_withdrawn_halfway
   \<and> cancelStream (at_time 1900 2) 1 stream_opened = Inr stream_cancelled_early
   \<and> processSubscriptionPayment (at_time 1010 4) 1 subscription_opened = Inr subscription_settled
   \<and> (\<exists>rb sb (fee :: uint256) net. balanceOf (at_time 2800 3) 1 stream_opened = Inr (rb, sb)
         \<and> unat fee = unat rb * unat (platformFee stream_opened) div 10000
         \<and> unat net + unat fee = unat rb
         \<and> payouts (effects_of stream_opened stream_withdrawn_halfway) = [(msg_sender (at_time 2800 3), net)]
         \<and> unat (balances stream_withdrawn_halfway (owner stream_opened))
             = unat (balances stream_opened (owner stream_opened)) + unat fee)
   \<and> (\<exists>rb sb (fee :: uint256) net. balanceOf (at_time 1900 2) 1 stream_opened = Inr (rb, sb)
         \<and> unat fee = unat rb * unat (platformFee stream_opened) div 10000
         \<and> unat net + unat fee = unat rb
         \<and> payouts (effects_of stream_opened stream_cancelled_early) =
               (if 0 < rb then [(recipient (streams stream_opened 1), net)] else [])
               @ (if 0 < sb then [(sender (streams stream_opened 1), sb)] else [])
         \<and> unat (balances stream_cancelled_early (owner stream_opened))
             = unat (balances stream_opened (owner stream_opened)) + unat fee)
   \<and> (\<exists>payment (fee :: uint256) net.
         unat payment = (unat (block_timestamp (at_time 1010 4))
                           - unat (lastPaymentTime (subscriptions subscription_opened 1)))
                          * unat (sub_ratePerSecond (subscriptions subscription_opened 1))
         \<and> unat fee = unat payment * unat (platformFee subscription_opened) div 10000
         \<and> unat net + unat fee = unat payment
         \<and> payouts (effects_of subscription_opened subscription_settled)
             = [(provider (subscriptions subscription_opened 1), net)]
         \<and> unat (balances subscription_settled (owner subscription_opened)) =
               unat (if owner subscription_opened = subscriber (subscriptions subscription_opened 1)
                     then balances subscription_opened (owner subscription_opened) - payment
                     else balances subscription_opened (owner subscription_opened))
               + unat fee)"
  using fee_is_floor_and_net_plus_fee_is_gross
          [of "at_time 2800 3" 1 stream_opened stream_withdrawn_halfway
              "at_time 1900 2" 1 stream_opened stream_cancelled_early
              "at_time 1010 4" 1 subscription_opened subscription_settled]
        withdraw_halfway_returns cancel_early_returns settle_returns
  by blast

section \<open>Accrual over time\<close>

lemma earned_by_mono: "t1 \<le> t2 \<Longrightarrow> earned_by st t1 \<le> earned_by st t2"
  by (simp add: earned_by_def word_le_nat_alt min_def diff_le_mono)

lemma earned_by_stop:
  "created st \<Longrightarrow> stopTime st \<le> t \<Longrightarrow> earned_by st t = unat (deposit st)"
  by (simp add: earned_by_def created_def word_le_nat_alt min_def mult.commute)

lemma earned_by_le_deposit:
  assumes "created st"
  shows "earned_by st t \<le> unat (deposit st)"
proof -
  have "min (unat t) (unat (stopTime st)) - unat (startTime st)
          \<le> unat (stopTime st) - unat (startTime st)"
    by (simp add: diff_le_mono)
  then have "earned_by st t \<le> (unat (stopTime st) - unat (startTime st)) * unat (ratePerSecond st)"
    unfolding earned_by_def by (rule mult_le_mono1)
  then show ?thesis
    using assms by (simp add: created_def mult.commute)
qed

lemma unat_lt_2p256: "unat (w :: uint256) < 2 ^ 256"
proof -
  have "unat w < 2 ^ LENGTH(256)" by (rule unsigned_less)
  then show ?thesis by simp
qed

lemma balanceOf_created:
  assumes "created (streams s i)" "stream_id (streams s i) \<noteq> 0" "active (streams s i)"
    and "startTime (streams s i) \<le> block_timestamp e"
  shows "\<exists>rb sb. balanceOf e i s = Inr (rb, sb)
           \<and> unat rb = (if unat (deposit (streams s i)) \<le> earned_by (streams s i) (block_timestamp e)
                        then unat (remainingBalance (streams s i))
                        else earned_by (streams s i) (block_timestamp e))"
proof -
  let ?st = "streams s i"
  let ?t = "block_timestamp e"
  define upto where "upto = (if stopTime ?st \<le> ?t then stopTime ?st else ?t)"
  define el where "el = upto - startTime ?st"
  have start: "startTime ?st \<le> upto"
    using assms(1,4) by (simp add: created_def upto_def)
  have "unat upto = min (unat ?t) (unat (stopTime ?st))"
    by (simp add: upto_def word_le_nat_alt min_def)
  then have el: "unat el = min (unat ?t) (unat (stopTime ?st)) - unat (startTime ?st)"
    using start by (simp add: el_def unat_sub)
  have e_el: "unat el * unat (ratePerSecond ?st) = earned_by ?st ?t"
    by (simp only: el earned_by_def)
  have "earned_by ?st ?t \<le> unat (deposit ?st)"
    using assms(1) by (rule earned_by_le_deposit)
  moreover have "unat (deposit ?st) < 2 ^ 256"
    by (rule unat_lt_2p256)
  ultimately have bound: "unat el * unat (ratePerSecond ?st) < 2 ^ 256"
    using e_el by linarith
  have earned: "unat (el * ratePerSecond ?st) = earned_by ?st ?t"
    using unat_mul256 [OF bound] e_el by simp
  have elapsed: "(if stopTime ?st \<le> ?t then sub256 (stopTime ?st) (startTime ?st)
                  else sub256 ?t (startTime ?st)) = Inr el"
    using start by (cases "stopTime ?st \<le> ?t") (simp_all add: sub256_def el_def upto_def)
  have mul: "mul256 el (ratePerSecond ?st) = Inr (el * ratePerSecond ?st)"
    using bound by (simp add: mul256_def)
  have cmp: "deposit ?st \<le> el * ratePerSecond ?st \<longleftrightarrow> unat (deposit ?st) \<le> earned_by ?st ?t"
    using earned by (simp add: word_le_nat_alt)
  show ?thesis
  proof (cases "deposit ?st \<le> el * ratePerSecond ?st")
    case True
    have "balanceOf e i s = Inr (remainingBalance ?st, 0)"
      unfolding balanceOf_def Let_def elapsed
      using assms(2,3) True by (simp add: mul)
    then show ?thesis
      using True cmp by simp
  next
    case False
    have "balanceOf e i s = Inr (el * ratePerSecond ?st, deposit ?st - el * ratePerSecond ?st)"
      unfolding balanceOf_def Let_def elapsed
      using assms(2,3) False by (simp add: mul sub256_def)
    then show ?thesis
      using False cmp earned by simp
  qed
qed

text \<open>
  Before any withdrawal. For an active stream of a reachable state, queried at or after its
  start: both queries return; while \<open>remainingBalance = deposit\<close> (a withdrawal takes a
  positive amount off \<open>remainingBalance\<close>, so this says that nothing has been withdrawn yet)
  the recipient balance does not decrease from the earlier to the later query; and from
  \<open>stopTime\<close> on it equals \<open>remainingBalance\<close> and stays within \<open>deposit\<close>, also after
  withdrawals.
\<close>

lemma recipientBalance_before_any_withdrawal:
  assumes "reachable s" and "active (streams s i)"
    and "startTime (streams s i) \<le> block_timestamp e1"
    and "block_timestamp e1 \<le> block_timestamp e2"
  shows "\<exists>rb1 sb1 rb2 sb2.
           balanceOf e1 i s = Inr (rb1, sb1) \<and> balanceOf e2 i s = Inr (rb2, sb2)
           \<and> (remainingBalance (streams s i) = deposit (streams s i) \<longrightarrow> rb1 \<le> rb2)
           \<and> (stopTime (streams s i) \<le> block_timestamp e2 \<longrightarrow>
                 rb2 = remainingBalance (streams s i) \<and> rb2 \<le> deposit (streams s i))"
proof -
  let ?st = "streams s i"
  have inv: "ledger_inv s" using assms(1) by (rule reachable_inv)
  have al: "allocated s i" using inv assms(2) by (rule inv_active_allocated)
  then have c: "created ?st" and idn: "stream_id ?st \<noteq> 0"
    using inv by (auto simp: ledger_inv_def allocated_def)
  have s2: "startTime ?st \<le> block_timestamp e2"
    using assms(3,4) by simp
  obtain rb1 sb1 where b1: "balanceOf e1 i s = Inr (rb1, sb1)"
    and u1: "unat rb1 = (if unat (deposit ?st) \<le> earned_by ?st (block_timestamp e1)
                         then unat (remainingBalance ?st) else earned_by ?st (block_timestamp e1))"
    using balanceOf_created [OF c idn assms(2,3)] by blast
  obtain rb2 sb2 where b2: "balanceOf e2 i s = Inr (rb2, sb2)"
    and u2: "unat rb2 = (if unat (deposit ?st) \<le> earned_by ?st (block_timestamp e2)
                         then unat (remainingBalance ?st) else earned_by ?st (block_timestamp e2))"
    using balanceOf_created [OF c idn assms(2) s2] by blast
  have mono: "rb1 \<le> rb2" if "remainingBalance ?st = deposit ?st"
    using earned_by_mono [OF assms(4), of ?st] that u1 u2
    by (auto simp add: word_le_nat_alt split: if_splits)
  have full: "rb2 = remainingBalance ?st \<and> rb2 \<le> deposit ?st" if "stopTime ?st \<le> block_timestamp e2"
  proof -
    have "unat rb2 = unat (remainingBalance ?st)"
      using u2 earned_by_stop [OF c that] by simp
    then have "rb2 = remainingBalance ?st"
      by (simp add: word_unat_eq_iff)
    then show ?thesis using c by (simp add: created_def)
  qed
  show ?thesis
    using b1 b2 mono full by blast
qed

lemma reachable_stream_withdrawn_halfway: "reachable stream_withdrawn_halfway"
  unfolding stream_withdrawn_halfway_def by (rule reachable_run) (rule reachable_stream_opened)

text \<open>
  Claim C8. For every active stream with no intervening withdrawal, the recipient balance
  that \<open>balanceOf\<close> returns does not decrease as the query time grows, and from \<open>stopTime\<close>
  on it equals \<open>remainingBalance\<close>, within \<open>deposit\<close>, however late the query.

  The first part fails on a stream that has been withdrawn from earlier, with no withdrawal
  between the queries. In the scenario the recipient has withdrawn 1800 at time 2800; the
  stream is active with \<open>remainingBalance = 1800\<close> and stops at 4600. One second before the
  stop \<open>balanceOf\<close> returns a recipient balance of 3599 (what was earned since the start,
  with nothing taken off for the withdrawal), at the stop it returns 1800 (the remaining
  balance): the recipient balance drops. The second part holds, as the lemma above shows.
\<close>

theorem recipientBalance_drops_at_stopTime:
  "reachable stream_withdrawn_halfway
   \<and> active (streams stream_withdrawn_halfway 1)
   \<and> remainingBalance (streams stream_withdrawn_halfway 1) = 1800
   \<and> stopTime (streams stream_withdrawn_halfway 1) = 4600
   \<and> balanceOf (at_time 4599 3) 1 stream_withdrawn_halfway = Inr (3599, 1)
   \<and> balanceOf (at_time 4600 3) 1 stream_withdrawn_halfway = Inr (1800, 0)
   \<and> (1800 :: uint256) < 3599"
  by (simp add: reachable_stream_withdrawn_halfway)
     (simp add: stream_withdrawn_halfway_state stream_opened_state run_defs)

section \<open>Cancelling a stream\<close>



section \<open>Reading a stream that does not exist\<close>

text \<open>
  Claim C9. For a stream id that was never allocated, \<open>getStream\<close> returns a record of
  zeros and \<open>False\<close> instead of failing, while \<open>balanceOf\<close> rejects the same id.

  \<open>createStream\<close> hands out the ids 1, 2, ... in order (\<open>nextStreamId\<close> is the next one),
  so the ids allocated so far are those from 1 up to but not including \<open>nextStreamId\<close>.
  \<open>getStream\<close> has no check and no arithmetic: it cannot fail, and so is a plain function.
\<close>

theorem unallocated_stream_reads_as_zero:
  assumes "reachable s" and "\<not> allocated s i"
  shows "getStream i s = (0, 0, 0, 0, 0, 0, 0, False)
       \<and> balanceOf e i s = Inl (Revert ''Stream doesn't exist'')"
proof -
  have "streams s i = zero_stream"
    using reachable_inv [OF assms(1)] assms(2) by (simp add: ledger_inv_def)
  then show ?thesis
    by (simp add: getStream_def balanceOf_def zero_stream_def)
qed

theorem unallocated_stream_reads_as_zero_witness:
  "reachable stream_opened \<and> \<not> allocated stream_opened 7
   \<and> getStream 7 stream_opened = (0, 0, 0, 0, 0, 0, 0, False)
   \<and> balanceOf (at_time 2000 9) 7 stream_opened = Inl (Revert ''Stream doesn't exist'')"
proof -
  have "\<not> allocated stream_opened 7"
    by (simp add: allocated_def stream_opened_state)
  then show ?thesis
    using unallocated_stream_reads_as_zero [OF reachable_stream_opened, of 7 "at_time 2000 9"]
      reachable_stream_opened by simp
qed

section \<open>Subscription settlement\<close>

text \<open>
  Claim C6. \<open>processSubscriptionPayment\<close> on an active subscription whose subscriber holds
  less than the payment \<open>elapsed * ratePerSecond\<close> fails with the error
  \<open>Insufficient balance\<close> and changes nothing; \<open>lastPaymentTime\<close> keeps its value, so a
  settlement after a top-up charges the whole period since then.

  The elapsed time and the payment are the two \<open>uint256\<close> values that the function
  computes, \<open>elapsedTime\<close> and \<open>payment\<close> of the source (\<open>due\<close> below), with its checked
  subtraction and multiplication. (Where the product does not fit in 256 bits there is no
  such value: the multiplication stops the call before the balance is looked at; that call
  fails too and changes nothing, with an arithmetic panic as its error.) A call that fails
  carries no
  state: the ledger after it is the ledger before it, which \<open>run\<close> says. The top-up
  \<open>topUpSubscription\<close> leaves \<open>lastPaymentTime\<close> alone, and the settlement that then
  succeeds at a time \<open>t\<close> takes \<open>(t - lastPaymentTime) * ratePerSecond\<close> with the
  \<open>lastPaymentTime\<close> from before the failed call: fee plus net payout to the provider.
\<close>

theorem insufficient_balance_rejected:
  assumes "sub_active (subscriptions s i)"
    and "sub256 (block_timestamp e) (lastPaymentTime (subscriptions s i)) = Inr elapsedTime"
    and "mul256 elapsedTime (sub_ratePerSecond (subscriptions s i)) = Inr due"
    and "balances s (subscriber (subscriptions s i)) < due"
  shows "processSubscriptionPayment e i s = Inl (Revert ''Insufficient balance'')
       \<and> run [(e, ProcessSubscriptionPayment i)] s = s
       \<and> (topUpSubscription e1 v i s = Inr s1 \<longrightarrow>
            lastPaymentTime (subscriptions s1 i) = lastPaymentTime (subscriptions s i)
            \<and> (processSubscriptionPayment e2 i s1 = Inr s2 \<longrightarrow>
                 lastPaymentTime (subscriptions s2 i) = block_timestamp e2
                 \<and> (\<exists>(payment :: uint256) (fee :: uint256) net.
                       unat payment =
                         (unat (block_timestamp e2) - unat (lastPaymentTime (subscriptions s i)))
                           * unat (sub_ratePerSecond (subscriptions s i))
                       \<and> unat net + unat fee = unat payment
                       \<and> unat fee = unat payment * unat (platformFee s) div 10000
                       \<and> payouts (effects_of s1 s2) = [(provider (subscriptions s i), net)])))"
proof (intro conjI impI)
  show rej: "processSubscriptionPayment e i s = Inl (Revert ''Insufficient balance'')"
    using assms(1,4)
    by (simp add: processSubscriptionPayment_def Let_def assms(2,3) not_le)
  show "run [(e, ProcessSubscriptionPayment i)] s = s"
    by (simp add: rej)
next
  assume "topUpSubscription e1 v i s = Inr s1"
  then show "lastPaymentTime (subscriptions s1 i) = lastPaymentTime (subscriptions s i)"
    by (cases rule: topUpSubscription_Inr) simp
next
  assume top: "topUpSubscription e1 v i s = Inr s1"
    and pay: "processSubscriptionPayment e2 i s1 = Inr s2"
  from top have same: "subscriptions s1 = subscriptions s" "platformFee s1 = platformFee s"
    by (cases rule: topUpSubscription_Inr; simp)+
  from pay show "lastPaymentTime (subscriptions s2 i) = block_timestamp e2"
    by (cases rule: processSubscriptionPayment_Inr) simp
  from pay show "\<exists>(payment :: uint256) (fee :: uint256) net.
                       unat payment =
                         (unat (block_timestamp e2) - unat (lastPaymentTime (subscriptions s i)))
                           * unat (sub_ratePerSecond (subscriptions s i))
                       \<and> unat net + unat fee = unat payment
                       \<and> unat fee = unat payment * unat (platformFee s) div 10000
                       \<and> payouts (effects_of s1 s2) = [(provider (subscriptions s i), net)]"
  proof (cases rule: processSubscriptionPayment_Inr)
    case (1 payment)
    let ?fee = "payment * platformFee s1 div 10000"
    have "unat payment = (unat (block_timestamp e2) - unat (lastPaymentTime (subscriptions s i)))
                          * unat (sub_ratePerSecond (subscriptions s i))"
      using 1(2,3) by (simp add: 1(4) unat_mul256 unat_sub same)
    moreover have "unat (payment - ?fee) + unat ?fee = unat payment"
      using 1(7) by (rule net_plus_fee)
    moreover have "unat ?fee = unat payment * unat (platformFee s) div 10000"
      using fee_floor [OF 1(6)] by (simp add: same)
    moreover have "payouts (effects_of s1 s2) = [(provider (subscriptions s i), payment - ?fee)]"
      by (simp add: 1(11) effects_of_def same)
    ultimately show ?thesis
      apply -
      apply (intro exI conjI; assumption)
      done
  qed
qed

theorem insufficient_balance_rejected_witness:
  "sub_active (subscriptions subscription_opened 1)
   \<and> sub256 (block_timestamp (at_time 1030 4))
         (lastPaymentTime (subscriptions subscription_opened 1)) = Inr 30
   \<and> mul256 30 (sub_ratePerSecond (subscriptions subscription_opened 1)) = Inr 150
   \<and> balances subscription_opened (subscriber (subscriptions subscription_opened 1)) < 150
   \<and> processSubscriptionPayment (at_time 1030 4) 1 subscription_opened
       = Inl (Revert ''Insufficient balance'')
   \<and> run [(at_time 1030 4, ProcessSubscriptionPayment 1)] subscription_opened = subscription_opened
   \<and> topUpSubscription (at_time 1040 2) 100 1 subscription_opened = Inr subscription_topped_up
   \<and> lastPaymentTime (subscriptions subscription_topped_up 1)
       = lastPaymentTime (subscriptions subscription_opened 1)
   \<and> processSubscriptionPayment (at_time 1040 4) 1 subscription_topped_up
       = Inr subscription_settled_late
   \<and> lastPaymentTime (subscriptions subscription_settled_late 1) = block_timestamp (at_time 1040 4)
   \<and> (\<exists>(payment :: uint256) (fee :: uint256) net.
         unat payment = 200
         \<and> unat net + unat fee = unat payment
         \<and> unat fee = unat payment * unat (platformFee subscription_opened) div 10000
         \<and> payouts (effects_of subscription_topped_up subscription_settled_late)
             = [(provider (subscriptions subscription_opened 1), net)])"
proof -
  have h: "sub_active (subscriptions subscription_opened 1)"
    "sub256 (block_timestamp (at_time 1030 4))
       (lastPaymentTime (subscriptions subscription_opened 1)) = Inr 30"
    "mul256 30 (sub_ratePerSecond (subscriptions subscription_opened 1)) = Inr 150"
    "balances subscription_opened (subscriber (subscriptions subscription_opened 1)) < 150"
    by (simp_all add: subscription_opened_state at_time_def sub256_def mul256_def)
  have t: "topUpSubscription (at_time 1040 2) 100 1 subscription_opened = Inr subscription_topped_up"
    by (rule subscription_topped_up_state [THEN conjunct1])
  have p: "processSubscriptionPayment (at_time 1040 4) 1 subscription_topped_up
             = Inr subscription_settled_late"
    by (rule subscription_settled_late_state [THEN conjunct1])
  have n: "(unat (block_timestamp (at_time 1040 4))
              - unat (lastPaymentTime (subscriptions subscription_opened 1)))
             * unat (sub_ratePerSecond (subscriptions subscription_opened 1)) = 200"
    by (simp add: subscription_opened_state at_time_def)
  show ?thesis
    using insufficient_balance_rejected [OF h, of "at_time 1040 2" 100 subscription_topped_up
             "at_time 1040 4" subscription_settled_late] h t p
    by (simp add: n)
qed

text \<open>
  Claim C10. On an active subscription, \<open>processSubscriptionPayment\<close> at a time equal to
  \<open>lastPaymentTime\<close> succeeds: it takes 0 from the subscriber, adds a fee of 0, pays 0 to
  the provider and sets \<open>lastPaymentTime\<close> to the current time.

  No check rejects a payment of 0, and none of the arithmetic can fail on it. The call still
  makes its transfer, of value 0; the provider is an account that accepts transfers. The
  ledger it returns differs from the one before in \<open>lastPaymentTime\<close> and in the trace
  only: the two balance entries are written with the values they had.
\<close>

theorem zero_elapsed_settlement_succeeds:
  assumes "sub_active (subscriptions s i)"
    and "block_timestamp e = lastPaymentTime (subscriptions s i)"
    and "accepts e (provider (subscriptions s i))"
  shows "processSubscriptionPayment e i s =
           Inr (s\<lparr>subscriptions := (subscriptions s)(i := (subscriptions s i)
                       \<lparr>lastPaymentTime := block_timestamp e\<rparr>),
                  trace := trace s @
                    [Write (Balances (subscriber (subscriptions s i))),
                     Write (Balances (owner s)),
                     Transfer (provider (subscriptions s i)) 0,
                     Write (SubLastPaymentTime i),
                     Emit (SubscriptionPayment i (subscriber (subscriptions s i))
                             (provider (subscriptions s i)) 0)]\<rparr>)"
  using assms
  by (simp add: processSubscriptionPayment_def Let_def sub256_def mul256_def add256_def
        transfer_def setters unat_lt_2p256 [simplified])

theorem zero_elapsed_settlement_succeeds_witness:
  "sub_active (subscriptions subscription_opened 1)
   \<and> block_timestamp (at_time 1000 4) = lastPaymentTime (subscriptions subscription_opened 1)
   \<and> accepts (at_time 1000 4) (provider (subscriptions subscription_opened 1))
   \<and> processSubscriptionPayment (at_time 1000 4) 1 subscription_opened =
           Inr (subscription_opened\<lparr>subscriptions := (subscriptions subscription_opened)(1 :=
                     (subscriptions subscription_opened 1)
                       \<lparr>lastPaymentTime := block_timestamp (at_time 1000 4)\<rparr>),
                  trace := trace subscription_opened @
                    [Write (Balances (subscriber (subscriptions subscription_opened 1))),
                     Write (Balances (owner subscription_opened)),
                     Transfer (provider (subscriptions subscription_opened 1)) 0,
                     Write (SubLastPaymentTime 1),
                     Emit (SubscriptionPayment 1 (subscriber (subscriptions subscription_opened 1))
                             (provider (subscriptions subscription_opened 1)) 0)]\<rparr>)"
proof -
  have h: "sub_active (subscriptions subscription_opened 1)"
    "block_timestamp (at_time 1000 4) = lastPaymentTime (subscriptions subscription_opened 1)"
    "accepts (at_time 1000 4) (provider (subscriptions subscription_opened 1))"
    by (simp_all add: subscription_opened_state at_time_def)
  show ?thesis
    using zero_elapsed_settlement_succeeds [OF h] h by simp
qed

section \<open>Cancelling a subscription\<close>



text \<open>
  Where the payment does not fit in 256 bits, the checked multiplication stops both the
  settlement and, for a subscriber with a balance, the cancellation.
\<close>

lemma overflowing_payment_panics:
  assumes "sub_active (subscriptions s i)"
    and "lastPaymentTime (subscriptions s i) \<le> block_timestamp e"
    and "\<not> unat (block_timestamp e - lastPaymentTime (subscriptions s i))
             * unat (sub_ratePerSecond (subscriptions s i)) < 2 ^ 256"
  shows "processSubscriptionPayment e i s = Inl Panic"
    and "subscriber (subscriptions s i) = msg_sender e \<or> provider (subscriptions s i) = msg_sender e
         \<Longrightarrow> 0 < balances s (subscriber (subscriptions s i))
         \<Longrightarrow> cancelSubscription e i s = Inl Panic"
  using assms
  by (simp_all add: processSubscriptionPayment_def cancelSubscription_def Let_def sub256_def mul256_def)

section \<open>The order of writes and transfers\<close>

text \<open>
  The effects of a call are what it appended to the trace, in program order. The stream
  withdrawal, the stream cancellation and the withdrawal of the balance make all their
  writes to the entity and balance state before their first transfer.
\<close>

lemma stream_paths_write_before_transfer:
  "withdrawFromStream e i s = Inr s' \<Longrightarrow> state_writes_before_transfers (effects_of s s')"
  "cancelStream e i s = Inr s' \<Longrightarrow> state_writes_before_transfers (effects_of s s')"
  "withdraw e s = Inr s' \<Longrightarrow> state_writes_before_transfers (effects_of s s')"
proof -
  show "state_writes_before_transfers (effects_of s s')" if "withdrawFromStream e i s = Inr s'"
    using that by (cases rule: withdrawFromStream_Inr) (simp add: effects_of_def)
  show "state_writes_before_transfers (effects_of s s')" if "cancelStream e i s = Inr s'"
    using that by (cases rule: cancelStream_Inr) (simp add: effects_of_def)
  show "state_writes_before_transfers (effects_of s s')" if "withdraw e s = Inr s'"
    using that by (cases rule: withdraw_Inr) (simp add: effects_of_def)
qed

text \<open>
  The two subscription functions do not: every settlement that returns writes
  \<open>lastPaymentTime\<close> after its transfer to the provider, and every cancellation that makes
  the final transfer clears the \<open>active\<close> flag after it.
\<close>

lemma processSubscriptionPayment_writes_after_transfer:
  assumes "processSubscriptionPayment e i s = Inr s'"
  shows "\<exists>net. effects_of s s' =
           [Write (Balances (subscriber (subscriptions s i))),
            Write (Balances (owner s)),
            Transfer (provider (subscriptions s i)) net,
            Write (SubLastPaymentTime i),
            Emit (SubscriptionPayment i (subscriber (subscriptions s i))
                    (provider (subscriptions s i)) net)]"
    and "\<not> state_writes_before_transfers (effects_of s s')"
  using assms by (cases rule: processSubscriptionPayment_Inr; simp add: effects_of_def)+

lemma cancelSubscription_writes_after_transfer:
  assumes "cancelSubscription e i s = Inr s'" and "payouts (effects_of s s') \<noteq> []"
  shows "\<exists>net. effects_of s s' =
           [Write (Balances (subscriber (subscriptions s i))),
            Write (Balances (owner s)),
            Transfer (provider (subscriptions s i)) net,
            Write (SubActive i),
            Emit (SubscriptionCancelled i (subscriber (subscriptions s i)))]"
    and "\<not> state_writes_before_transfers (effects_of s s')"
  using assms by (cases rule: cancelSubscription_Inr; simp add: effects_of_def)+

text \<open>
  Claim C3. In every mutating operation (stream withdrawal, stream cancellation,
  subscription settlement, subscription cancellation, withdrawal of the balance) every
  outgoing transfer comes after all mutations of the operation's entity and balance state
  (active flag, remainingBalance, lastPaymentTime, entries of the balance table).

  The subscription settlement and the subscription cancellation break this. In the
  subscription scenario (rate 5, float 100, opened at time 1000) the settlement at time
  1010 writes the two balance entries, transfers 50 to the provider and only then writes
  \<open>lastPaymentTime\<close>; the cancellation by the provider at time 1010 writes the two balance
  entries, transfers 50 and only then clears the \<open>active\<close> flag.
\<close>

theorem settlement_transfers_before_last_write:
  "processSubscriptionPayment (at_time 1010 4) 1 subscription_opened = Inr subscription_settled
   \<and> effects_of subscription_opened subscription_settled =
       [Write (Balances 2), Write (Balances 1), Transfer 3 50, Write (SubLastPaymentTime 1),
        Emit (SubscriptionPayment 1 2 3 50)]
   \<and> entity_or_balance (SubLastPaymentTime 1)
   \<and> \<not> state_writes_before_transfers (effects_of subscription_opened subscription_settled)
   \<and> cancelSubscription (at_time 1010 3) 1 subscription_opened = Inr subscription_cancelled
   \<and> effects_of subscription_opened subscription_cancelled =
       [Write (Balances 2), Write (Balances 1), Transfer 3 50, Write (SubActive 1),
        Emit (SubscriptionCancelled 1 2)]
   \<and> entity_or_balance (SubActive 1)
   \<and> \<not> state_writes_before_transfers (effects_of subscription_opened subscription_cancelled)"
  by (simp add: settle_returns subscription_cancelled_state [THEN conjunct1])
     (simp add: subscription_settled_state subscription_cancelled_state [THEN conjunct2]
        effects_of_def)

end
